theory Spec2Isabelle
  imports Complex_Main
begin

section \<open>Go strings and the library calls the handlers use\<close>

text \<open>
  A Go string is a sequence of bytes, and so is a \<open>string\<close> here (\<open>char\<close> is a byte).
  \<open>strIndex\<close> is \<open>strings.Index\<close> (\<open>None\<close> for \<open>-1\<close>), \<open>strContains\<close> is
  \<open>strings.Contains\<close>, \<open>strHasPrefix\<close> and \<open>strHasSuffix\<close> are
  \<open>strings.HasPrefix\<close> and \<open>strings.HasSuffix\<close>.
\<close>

fun strHasPrefix :: "string \<Rightarrow> string \<Rightarrow> bool" where
  "strHasPrefix s [] = True"
| "strHasPrefix [] (p # ps) = False"
| "strHasPrefix (c # cs) (p # ps) = (c = p \<and> strHasPrefix cs ps)"

lemma strHasPrefix_take: "strHasPrefix s p = (take (length p) s = p)"
  by (induction s p rule: strHasPrefix.induct) auto

lemma strHasPrefix_length: "strHasPrefix s p \<Longrightarrow> length p \<le> length s"
  by (induction s p rule: strHasPrefix.induct) auto

definition strHasSuffix :: "string \<Rightarrow> string \<Rightarrow> bool" where
  "strHasSuffix s p = (length p \<le> length s \<and> drop (length s - length p) s = p)"

fun strIndex :: "string \<Rightarrow> string \<Rightarrow> nat option" where
  "strIndex [] sub = (if sub = [] then Some 0 else None)"
| "strIndex (c # cs) sub =
     (if strHasPrefix (c # cs) sub then Some 0 else map_option Suc (strIndex cs sub))"

definition strContains :: "string \<Rightarrow> string \<Rightarrow> bool" where
  "strContains s sub = (strIndex s sub \<noteq> None)"

text \<open>
  \<open>strings.TrimSpace\<close> removes leading and trailing Unicode white space. In UTF-8 the
  white-space code points are the six ASCII bytes of \<open>asciiSpace\<close> and the multi-byte
  encodings listed in \<open>unicodeSpaces\<close> (U+0085, U+00A0, U+1680, U+2000 to U+200A, U+2028,
  U+2029, U+202F, U+205F, U+3000). \<open>spaceLen s\<close> is the number of bytes of the white-space
  code point \<open>s\<close> starts with, and 0 when it starts with none.
\<close>

definition asciiSpace :: "char \<Rightarrow> bool" where
  "asciiSpace c = (c \<in> set [CHR 0x09, CHR 0x0A, CHR 0x0B, CHR 0x0C, CHR 0x0D, CHR 0x20])"

definition unicodeSpaces :: "string list" where
  "unicodeSpaces =
     [[CHR 0xC2, CHR 0x85], [CHR 0xC2, CHR 0xA0], [CHR 0xE1, CHR 0x9A, CHR 0x80],
      [CHR 0xE2, CHR 0x80, CHR 0x80], [CHR 0xE2, CHR 0x80, CHR 0x81],
      [CHR 0xE2, CHR 0x80, CHR 0x82], [CHR 0xE2, CHR 0x80, CHR 0x83],
      [CHR 0xE2, CHR 0x80, CHR 0x84], [CHR 0xE2, CHR 0x80, CHR 0x85],
      [CHR 0xE2, CHR 0x80, CHR 0x86], [CHR 0xE2, CHR 0x80, CHR 0x87],
      [CHR 0xE2, CHR 0x80, CHR 0x88], [CHR 0xE2, CHR 0x80, CHR 0x89],
      [CHR 0xE2, CHR 0x80, CHR 0x8A], [CHR 0xE2, CHR 0x80, CHR 0xA8],
      [CHR 0xE2, CHR 0x80, CHR 0xA9], [CHR 0xE2, CHR 0x80, CHR 0xAF],
      [CHR 0xE2, CHR 0x81, CHR 0x9F], [CHR 0xE3, CHR 0x80, CHR 0x80]]"

definition spaceLen :: "string \<Rightarrow> nat" where
  "spaceLen s =
     (case s of
        [] \<Rightarrow> 0
      | c # cs \<Rightarrow>
          if asciiSpace c then 1
          else (case find (strHasPrefix s) unicodeSpaces of Some p \<Rightarrow> length p | None \<Rightarrow> 0))"

lemma spaceLen_le: "spaceLen s \<le> length s"
proof (cases s)
  case Nil
  then show ?thesis by (simp add: spaceLen_def)
next
  case (Cons c cs)
  show ?thesis
  proof (cases "find (strHasPrefix s) unicodeSpaces")
    case None
    with Cons show ?thesis by (simp add: spaceLen_def)
  next
    case (Some p)
    then have "strHasPrefix s p" by (auto simp: find_Some_iff)
    then have "length p \<le> length s" by (rule strHasPrefix_length)
    with Cons Some show ?thesis by (simp add: spaceLen_def)
  qed
qed

function trimLeft :: "string \<Rightarrow> string" where
  "trimLeft s = (if spaceLen s = 0 then s else trimLeft (drop (spaceLen s) s))"
  by pat_completeness auto
termination
proof (relation "measure length")
  show "wf (measure length)" by simp
next
  fix s :: string
  assume "spaceLen s \<noteq> 0"
  moreover have "spaceLen s \<le> length s" by (rule spaceLen_le)
  ultimately show "(drop (spaceLen s) s, s) \<in> measure length" by simp
qed

declare trimLeft.simps [simp del]

lemma trimLeft_stop: "spaceLen s = 0 \<Longrightarrow> trimLeft s = s"
  by (subst trimLeft.simps) simp

lemma trimLeft_step: "spaceLen s \<noteq> 0 \<Longrightarrow> trimLeft s = trimLeft (drop (spaceLen s) s)"
  by (subst trimLeft.simps) simp

text \<open>
  At the end of the text Go decodes the last code point backwards; \<open>spaceLenEnd s\<close> is the
  number of bytes of the white-space code point \<open>s\<close> ends with, and 0 when it ends with none.
\<close>

definition spaceLenEnd :: "string \<Rightarrow> nat" where
  "spaceLenEnd s =
     (if s = [] then 0
      else if asciiSpace (last s) then 1
      else (case find (strHasSuffix s) unicodeSpaces of Some p \<Rightarrow> length p | None \<Rightarrow> 0))"

lemma spaceLenEnd_le: "spaceLenEnd s \<le> length s"
proof (cases "find (strHasSuffix s) unicodeSpaces")
  case None
  then show ?thesis by (cases s) (simp_all add: spaceLenEnd_def)
next
  case (Some p)
  then have "strHasSuffix s p" by (auto simp: find_Some_iff)
  then have "length p \<le> length s" by (simp add: strHasSuffix_def)
  with Some show ?thesis by (cases s) (simp_all add: spaceLenEnd_def)
qed

function trimRight :: "string \<Rightarrow> string" where
  "trimRight s =
     (if spaceLenEnd s = 0 then s else trimRight (take (length s - spaceLenEnd s) s))"
  by pat_completeness auto
termination
proof (relation "measure length")
  show "wf (measure length)" by simp
next
  fix s :: string
  assume nz: "spaceLenEnd s \<noteq> 0"
  have le: "spaceLenEnd s \<le> length s" by (rule spaceLenEnd_le)
  from nz le show "(take (length s - spaceLenEnd s) s, s) \<in> measure length" by simp
qed

declare trimRight.simps [simp del]

lemma trimRight_stop: "spaceLenEnd s = 0 \<Longrightarrow> trimRight s = s"
  by (subst trimRight.simps) simp

lemma trimRight_step:
  "spaceLenEnd s \<noteq> 0 \<Longrightarrow> trimRight s = trimRight (take (length s - spaceLenEnd s) s)"
  by (subst trimRight.simps) simp

definition strTrimSpace :: "string \<Rightarrow> string" where
  "strTrimSpace s = trimRight (trimLeft s)"

text \<open>\<open>strings.Trim(s, cutset)\<close> for a cutset of ASCII characters.\<close>

definition strTrim :: "string \<Rightarrow> string \<Rightarrow> string" where
  "strTrim s cutset =
     rev (dropWhile (\<lambda>c. c \<in> set cutset) (rev (dropWhile (\<lambda>c. c \<in> set cutset) s)))"

subsection \<open>Decimal numbers\<close>

definition isDigit :: "char \<Rightarrow> bool" where
  "isDigit c = (c \<in> set ''0123456789'')"

definition digitVal :: "char \<Rightarrow> nat" where
  "digitVal c = of_char c - 48"

definition natOfDigits :: "string \<Rightarrow> nat" where
  "natOfDigits s = foldl (\<lambda>n c. 10 * n + digitVal c) 0 s"

text \<open>
  \<open>strconv.ParseUint(s, 10, bits)\<close> and \<open>strconv.ParseInt(s, 10, bits)\<close>: \<open>None\<close> is the
  returned error (empty text, a byte that is no digit, or a value out of range).
  \<open>strconv.Atoi\<close> is \<open>ParseInt\<close> at the width of \<open>int\<close>, 64 bits on the target.
\<close>

definition parseUint :: "nat \<Rightarrow> string \<Rightarrow> nat option" where
  "parseUint bits s =
     (if s \<noteq> [] \<and> list_all isDigit s \<and> natOfDigits s < 2 ^ bits
      then Some (natOfDigits s) else None)"

definition parseInt :: "nat \<Rightarrow> string \<Rightarrow> int option" where
  "parseInt bits s =
     (let neg = strHasPrefix s ''-'';
          body = (if s \<noteq> [] \<and> (hd s = CHR ''+'' \<or> hd s = CHR ''-'') then tl s else s);
          n = int (natOfDigits body)
      in if body = [] \<or> \<not> list_all isDigit body then None
         else if neg then (if n \<le> 2 ^ (bits - 1) then Some (- n) else None)
         else (if n < 2 ^ (bits - 1) then Some n else None))"

definition atoi :: "string \<Rightarrow> int option" where
  "atoi s = parseInt 64 s"

text \<open>\<open>%d\<close> of a number that is not negative, and \<open>%04d\<close>.\<close>

function showNat :: "nat \<Rightarrow> string" where
  "showNat n =
     (if n < 10 then [''0123456789'' ! n]
      else showNat (n div 10) @ [''0123456789'' ! (n mod 10)])"
  by pat_completeness auto
termination
  by (relation "measure id") auto

declare showNat.simps [simp del]

lemma showNat_digit: "n < 10 \<Longrightarrow> showNat n = [''0123456789'' ! n]"
  by (subst showNat.simps) simp

lemma showNat_more:
  "\<not> n < 10 \<Longrightarrow> showNat n = showNat (n div 10) @ [''0123456789'' ! (n mod 10)]"
  by (subst showNat.simps) simp

definition pad4 :: "nat \<Rightarrow> string" where
  "pad4 n = replicate (4 - length (showNat n)) (CHR ''0'') @ showNat n"

subsection \<open>Lines of a text\<close>

text \<open>
  \<open>bufio.Scanner\<close> with its default split function yields the text between line feeds,
  each line without one trailing carriage return; an empty piece after the last line feed
  is no line. Its buffer holds 65536 bytes: at the first line of that length or more the
  scan ends (the handlers never look at the scanner's error), and the lines before it have
  been delivered.
\<close>

fun splitLines :: "string \<Rightarrow> string \<Rightarrow> string list" where
  "splitLines acc [] = (if acc = [] then [] else [rev acc])"
| "splitLines acc (c # cs) =
     (if c = CHR 0x0A then rev acc # splitLines [] cs else splitLines (c # acc) cs)"

definition dropCR :: "string \<Rightarrow> string" where
  "dropCR l = (if l \<noteq> [] \<and> last l = CHR 0x0D then butlast l else l)"

definition maxScanTokenSize :: nat where
  "maxScanTokenSize = 65536"

definition scanLines :: "string \<Rightarrow> string list" where
  "scanLines text =
     map dropCR (takeWhile (\<lambda>l. length l < maxScanTokenSize) (splitLines [] text))"

subsection \<open>Terminal control sequences\<close>

text \<open>
  \<open>ansiRegex\<close> is \<open>\x1b\[[0-9;]*[a-zA-Z]\<close>. \<open>matchAnsi s\<close> is the text after a match that
  starts at the head of \<open>s\<close>; the parameter bytes and the final letter are disjoint, so the
  greedy star never gives a byte back. \<open>stripAnsi\<close> deletes every match, left to right.
\<close>

definition isLetter :: "char \<Rightarrow> bool" where
  "isLetter c = (c \<in> set ''abcdefghijklmnopqrstuvwxyzABCDEFGHIJKLMNOPQRSTUVWXYZ'')"

definition matchAnsi :: "string \<Rightarrow> string option" where
  "matchAnsi s =
     (case s of
        e # b # rest \<Rightarrow>
          if e = CHR 0x1B \<and> b = CHR ''[''
          then (case dropWhile (\<lambda>c. isDigit c \<or> c = CHR '';'') rest of
                  l # rest' \<Rightarrow> if isLetter l then Some rest' else None
                | [] \<Rightarrow> None)
          else None
      | _ \<Rightarrow> None)"

lemma matchAnsi_shorter:
  assumes "matchAnsi s = Some r"
  shows "length r < length s"
proof (cases s)
  case Nil
  with assms show ?thesis by (simp add: matchAnsi_def)
next
  case (Cons e t)
  show ?thesis
  proof (cases t)
    case Nil
    with Cons assms show ?thesis by (simp add: matchAnsi_def)
  next
    case (Cons b rest)
    let ?d = "dropWhile (\<lambda>c. isDigit c \<or> c = CHR '';'') rest"
    have le: "length ?d \<le> length rest" by (rule length_dropWhile_le)
    have m: "(case ?d of [] \<Rightarrow> None | l # rest' \<Rightarrow> if isLetter l then Some rest' else None)
               = Some r"
      using assms \<open>s = e # t\<close> \<open>t = b # rest\<close>
      by (simp add: matchAnsi_def split: if_splits)
    show ?thesis
    proof (cases ?d)
      case Nil
      from m show ?thesis unfolding Nil by simp
    next
      case (Cons l r')
      from m have "r = r'" unfolding Cons by (simp split: if_splits)
      moreover from le have "length r' < length rest + 2" unfolding Cons by simp
      ultimately show ?thesis using \<open>s = e # t\<close> \<open>t = b # rest\<close> by simp
    qed
  qed
qed

function stripAnsi :: "string \<Rightarrow> string" where
  "stripAnsi [] = []"
| "stripAnsi (c # cs) =
     (case matchAnsi (c # cs) of Some rest \<Rightarrow> stripAnsi rest | None \<Rightarrow> c # stripAnsi cs)"
  by pat_completeness auto
termination
proof (relation "measure length")
  show "wf (measure length)" by simp
next
  fix c :: char and cs rest :: string
  assume "matchAnsi (c # cs) = Some rest"
  then have "length rest < length (c # cs)" by (rule matchAnsi_shorter)
  then show "(rest, c # cs) \<in> measure length" by simp
next
  fix c :: char and cs :: string
  show "(cs, c # cs) \<in> measure length" by simp
qed


section \<open>Values and payloads\<close>

text \<open>
  A \<open>float64\<close> is a finite number, an infinity or NaN. No arithmetic on it is modelled:
  the handlers only pass such a value on, and \<open>encoding/json\<close> refuses the three that
  are not finite.
\<close>

datatype float64 = Finite real | PosInf | NegInf | NaN

text \<open>
  What \<open>encoding/json\<close> decodes into an \<open>interface{}\<close>: the payload of a client message and
  the values of a command's parameter map. An object lists its members in the order in
  which a \<open>range\<close> over the map visits them, which the runtime chooses.
\<close>

datatype jvalue =
    JNull
  | JBool bool
  | JNumber float64
  | JString string
  | JArray "jvalue list"
  | JObject "(string \<times> jvalue) list"

text \<open>The dynamically typed attribute value (\<open>Value interface{}\<close>).\<close>

datatype AttributeValue = VBool bool | VInt int | VFloat float64 | VStr string

record CommissionDevicePayload =
  SetupCode :: string
  Hostname :: string
  IPAddress :: string
  Port :: string
  MrpIntervalIdle :: string
  MrpIntervalActive :: string
  MrpActiveThreshold :: string
  TCPClientSupported :: string
  TCPServerSupported :: string
  ICD :: string
  VendorID :: string
  ProductID :: string
  LongDiscriminator :: string
  PairingHint :: string
  InstanceName :: string
  CommissioningMode :: string
  NodeID :: string
  SupportsCommissionerGeneratedPasscode :: string
  EndpointId :: string

record DeviceCommandPayload =
  NodeID :: string
  Cluster :: string
  Command :: string
  Params :: "(string \<times> jvalue) list"

record SubscribeAttributePayload =
  NodeID :: string
  EndpointID :: string
  Cluster :: string
  Attribute :: string
  MinInterval :: string
  MaxInterval :: string

record DeviceGetStatusPayload =
  deviceNodeId :: string
  deviceEndpointId :: string

record DeviceStatusPayload =
  nodeID :: string
  status :: string

record CommissioningStatusPayload =
  Success :: bool
  NodeID :: string
  Details :: string
  Error :: string
  OriginalDiscriminator :: string
  EndpointId :: string
  DiscriminatorAssociatedWithRequest :: string

record AttributeUpdatePayload =
  NodeID :: string
  EndpointID :: string
  Cluster :: string
  Attribute :: string
  Value :: AttributeValue

record CommandResponsePayload =
  Success :: bool
  NodeID :: string
  Details :: string
  Error :: string

section \<open>The discovery parser\<close>

text \<open>
  \<open>DiscoveredDevice\<close> as declared beside the handlers. \<open>PairingHint\<close> (\<open>uint16\<close>) and
  \<open>CommissioningMode\<close> (\<open>uint8\<close>) only ever receive a value that \<open>ParseUint\<close> has
  accepted at that width, and \<open>DeviceType\<close> (\<open>uint32\<close>) is never written, so no conversion
  wraps and the three are natural numbers here. \<open>emptyDevice\<close> is the zero value
  \<open>DiscoveredDevice{}\<close>.
\<close>

record DiscoveredDevice =
  ID :: string
  Name :: string
  Type :: string
  IPAddress :: string
  Port :: int
  MrpIntervalIdle :: string
  MrpIntervalActive :: string
  MrpActiveThreshold :: string
  TCPClientSupported :: bool
  TCPServerSupported :: bool
  ICD :: string
  Discriminator :: string
  VendorID :: string
  ProductID :: string
  NodeID :: string
  MACAddress :: string
  PairingHint :: nat
  DeviceType :: nat
  CommissioningMode :: nat
  InstanceName :: string
  SupportsCommissionerGeneratedPasscode :: bool

definition emptyDevice :: DiscoveredDevice where
  "emptyDevice =
     \<lparr> ID = [], Name = [], Type = [], IPAddress = [], Port = 0, MrpIntervalIdle = [],
       MrpIntervalActive = [], MrpActiveThreshold = [], TCPClientSupported = False,
       TCPServerSupported = False, ICD = [], Discriminator = [], VendorID = [],
       ProductID = [], NodeID = [], MACAddress = [], PairingHint = 0, DeviceType = 0,
       CommissioningMode = 0, InstanceName = [],
       SupportsCommissionerGeneratedPasscode = False \<rparr>"

definition extractValueAfterKey :: "string \<Rightarrow> string \<Rightarrow> string" where
  "extractValueAfterKey line key =
     (case strIndex line key of
        Some idx \<Rightarrow> strTrimSpace (drop (idx + length key) line)
      | None \<Rightarrow> [])"

text \<open>
  One link of the chain \<open>if val = extractValueAfterKey(contentAfterDis, key); val != ""
  { ... } else ...\<close>: \<open>hit\<close> is the branch taken with the value, \<open>miss\<close> the rest of the
  chain.
\<close>

definition onKey :: "string \<Rightarrow> string \<Rightarrow> (string \<Rightarrow> 'a) \<Rightarrow> 'a \<Rightarrow> 'a" where
  "onKey c key hit miss =
     (if extractValueAfterKey c key \<noteq> [] then hit (extractValueAfterKey c key) else miss)"

definition commissioningType :: "nat \<Rightarrow> string" where
  "commissioningType cm =
     (if cm = 1 then ''BLE''
      else if cm = 2 then ''OnNetwork (DNS-SD)''
      else ''CM:'' @ showNat cm)"

text \<open>
  The chain over the known keys, in the order of the source: the first key whose value is
  not empty decides what the line sets, and a number that does not parse leaves the record
  as it was.
\<close>

definition parseField :: "string \<Rightarrow> DiscoveredDevice \<Rightarrow> DiscoveredDevice" where
  "parseField c d =
     onKey c ''Hostname:'' (\<lambda>val. d\<lparr>Name := val\<rparr>)
    (onKey c ''IP Address #1:'' (\<lambda>val. d\<lparr>IPAddress := val\<rparr>)
    (onKey c ''Port:''
       (\<lambda>val. case atoi val of Some port \<Rightarrow> d\<lparr>Port := port\<rparr> | None \<Rightarrow> d)
    (onKey c ''Mrp Interval idle:'' (\<lambda>val. d\<lparr>MrpIntervalIdle := val\<rparr>)
    (onKey c ''Mrp Interval active:'' (\<lambda>val. d\<lparr>MrpIntervalActive := val\<rparr>)
    (onKey c ''Mrp Active Threshold:'' (\<lambda>val. d\<lparr>MrpActiveThreshold := val\<rparr>)
    (onKey c ''TCP Client Supported:'' (\<lambda>val. d\<lparr>TCPClientSupported := (val = ''1'')\<rparr>)
    (onKey c ''TCP Server Supported:'' (\<lambda>val. d\<lparr>TCPServerSupported := (val = ''1'')\<rparr>)
    (onKey c ''ICD:'' (\<lambda>val. d\<lparr>ICD := val\<rparr>)
    (onKey c ''Vendor ID:'' (\<lambda>val. d\<lparr>VendorID := val\<rparr>)
    (onKey c ''Product ID:'' (\<lambda>val. d\<lparr>ProductID := val\<rparr>)
    (onKey c ''Long Discriminator:'' (\<lambda>val. d\<lparr>Discriminator := val\<rparr>)
    (onKey c ''Pairing Hint:''
       (\<lambda>val. case parseUint 16 val of Some ph \<Rightarrow> d\<lparr>PairingHint := ph\<rparr> | None \<Rightarrow> d)
    (onKey c ''Instance Name:'' (\<lambda>val. d\<lparr>InstanceName := val\<rparr>)
    (onKey c ''Commissioning Mode:''
       (\<lambda>val. case parseUint 8 val of
                 Some cm \<Rightarrow> d\<lparr>CommissioningMode := cm, Type := commissioningType cm\<rparr>
               | None \<Rightarrow> d)
    (onKey c ''Supports Commissioner Generated Passcode:''
       (\<lambda>val. d\<lparr>SupportsCommissionerGeneratedPasscode := (val = ''true'')\<rparr>)
     d)))))))))))))))"

text \<open>
  The completeness test and the defaulting of \<open>ID\<close> and \<open>Name\<close>, which the source writes
  out twice with the same text: where a new block starts, and after the last line.
\<close>

definition flushable :: "DiscoveredDevice \<Rightarrow> bool" where
  "flushable d = (Discriminator d \<noteq> [] \<or> InstanceName d \<noteq> [])"

definition defaultID :: "DiscoveredDevice \<Rightarrow> DiscoveredDevice" where
  "defaultID d =
     (if ID d = []
      then (if InstanceName d \<noteq> [] then d\<lparr>ID := ''dnsd_instance_'' @ InstanceName d\<rparr>
            else d\<lparr>ID := ''dnsd_vid'' @ VendorID d @ ''_pid'' @ ProductID d
                           @ ''_disc'' @ Discriminator d\<rparr>)
      else d)"

definition defaultName :: "DiscoveredDevice \<Rightarrow> DiscoveredDevice" where
  "defaultName d =
     (if Name d = []
      then (if InstanceName d \<noteq> [] then d\<lparr>Name := ''MatterDevice-'' @ InstanceName d\<rparr>
            else if VendorID d \<noteq> [] \<and> ProductID d \<noteq> []
              then d\<lparr>Name := ''MatterDevice-VID'' @ VendorID d @ ''-PID'' @ ProductID d\<rparr>
            else d\<lparr>Name := ''Unknown Matter Device''\<rparr>)
      else d)"

definition finalizeDevice :: "DiscoveredDevice \<Rightarrow> DiscoveredDevice" where
  "finalizeDevice d = defaultName (defaultID d)"

text \<open>
  The parser's state is the list \<open>devices\<close> and the record in progress \<open>currentDevice\<close>
  (\<open>None\<close> for the nil pointer). \<open>flush\<close> is the guarded append.
\<close>

type_synonym pstate = "DiscoveredDevice list \<times> DiscoveredDevice option"

definition flush :: "pstate \<Rightarrow> DiscoveredDevice list" where
  "flush st =
     (case snd st of
        Some d \<Rightarrow> if flushable d then fst st @ [finalizeDevice d] else fst st
      | None \<Rightarrow> fst st)"

definition disMarker :: string where
  "disMarker = ''[DIS]''"

definition blockMarker :: string where
  "blockMarker = ''Discovered commissionable/commissioner node:''"

definition processLine :: "pstate \<Rightarrow> string \<Rightarrow> pstate" where
  "processLine st rawLine =
     (let strippedLine = stripAnsi rawLine in
      case strIndex strippedLine disMarker of
        None \<Rightarrow> st
      | Some idxDis \<Rightarrow>
          let contentAfterDis = strTrimSpace (drop (idxDis + length disMarker) strippedLine) in
          if strHasPrefix contentAfterDis blockMarker then (flush st, Some emptyDevice)
          else (case snd st of
                  Some d \<Rightarrow> (fst st, Some (parseField contentAfterDis d))
                | None \<Rightarrow> st))"

definition parseLines :: "string list \<Rightarrow> DiscoveredDevice list" where
  "parseLines ls = flush (foldl processLine ([], None) ls)"

text \<open>
  \<open>parseDiscoveryOutput\<close> is the list the function returns. The progress messages it sends
  to a client that is not nil are \<open>discovery_log\<close> texts only and do not change that list.
\<close>

definition parseDiscoveryOutput :: "string \<Rightarrow> DiscoveredDevice list" where
  "parseDiscoveryOutput output = parseLines (scanLines output)"


subsection \<open>Lines, blocks and the record of a block\<close>

text \<open>
  The notions the statements about the parser use. \<open>textLines output\<close> is every line of
  the text, of whatever length, where \<open>scanLines\<close> has only those the scanner delivers.
  \<open>disContent l\<close> is the text the parser reads on a line that holds the \<open>[DIS]\<close> marker;
  \<open>isBlockStart l\<close> says that \<open>l\<close> opens a device block; \<open>fieldStep\<close> is what any other
  line does to the record in progress; \<open>blocksOf\<close> cuts a list of lines into its blocks,
  each the lines after a block start up to the next one, and \<open>blockRecord\<close> is the record
  a block's lines build.
\<close>

definition textLines :: "string \<Rightarrow> string list" where
  "textLines output = map dropCR (splitLines [] output)"

definition disContent :: "string \<Rightarrow> string option" where
  "disContent rawLine =
     (case strIndex (stripAnsi rawLine) disMarker of
        None \<Rightarrow> None
      | Some idxDis \<Rightarrow>
          Some (strTrimSpace (drop (idxDis + length disMarker) (stripAnsi rawLine))))"

definition isBlockStart :: "string \<Rightarrow> bool" where
  "isBlockStart l =
     (case disContent l of Some c \<Rightarrow> strHasPrefix c blockMarker | None \<Rightarrow> False)"

definition fieldStep :: "DiscoveredDevice \<Rightarrow> string \<Rightarrow> DiscoveredDevice" where
  "fieldStep d l = (case disContent l of Some c \<Rightarrow> parseField c d | None \<Rightarrow> d)"

definition blockRecord :: "string list \<Rightarrow> DiscoveredDevice" where
  "blockRecord b = foldl fieldStep emptyDevice b"

fun blocksOf :: "string list \<Rightarrow> string list list" where
  "blocksOf [] = []"
| "blocksOf (l # ls) =
     (if isBlockStart l then takeWhile (\<lambda>x. \<not> isBlockStart x) ls # blocksOf ls
      else blocksOf ls)"

definition emit :: "DiscoveredDevice \<Rightarrow> DiscoveredDevice list" where
  "emit d = (if flushable d then [finalizeDevice d] else [])"

text \<open>
  The keys in the order the chain tries them. A line names the device when the first key
  of the chain that has a value on it is the long discriminator or the instance name.
\<close>

definition keyChain :: "string list" where
  "keyChain =
     [''Hostname:'', ''IP Address #1:'', ''Port:'', ''Mrp Interval idle:'',
      ''Mrp Interval active:'', ''Mrp Active Threshold:'', ''TCP Client Supported:'',
      ''TCP Server Supported:'', ''ICD:'', ''Vendor ID:'', ''Product ID:'',
      ''Long Discriminator:'', ''Pairing Hint:'', ''Instance Name:'',
      ''Commissioning Mode:'', ''Supports Commissioner Generated Passcode:'']"

definition firstKey :: "string \<Rightarrow> string option" where
  "firstKey c = find (\<lambda>k. extractValueAfterKey c k \<noteq> []) keyChain"

definition identityLine :: "string \<Rightarrow> bool" where
  "identityLine l =
     (\<not> isBlockStart l \<and>
      (case disContent l of
         Some c \<Rightarrow> firstKey c = Some ''Long Discriminator:'' \<or> firstKey c = Some ''Instance Name:''
       | None \<Rightarrow> False))"

definition wellFormedBlock :: "string list \<Rightarrow> bool" where
  "wellFormedBlock b = (\<exists>l \<in> set b. identityLine l)"

section \<open>Events sent to a client\<close>

record DiscoveryResultPayload =
  Devices :: "DiscoveredDevice list"
  Error :: string

text \<open>
  The payload of a \<open>ServerMessage\<close>: the text of \<open>notifyClientLog\<close>, the one-entry map
  \<open>{"message": text}\<close> of the error events, or one of the payload structs. The \<open>Data\<close>
  field of \<open>ServerMessage\<close> is never set by the handlers and is left out.
\<close>

datatype payload =
    LogText string
  | ErrorMessage string
  | DiscoveryResult DiscoveryResultPayload
  | CommissioningStatus CommissioningStatusPayload
  | CommandResponse CommandResponsePayload
  | AttributeUpdate AttributeUpdatePayload
  | DeviceStatus DeviceStatusPayload

record ServerMessage =
  Type :: string
  Payload :: payload

record ClientMessage =
  Type :: string
  Payload :: jvalue

section \<open>Attribute values\<close>

text \<open>
  \<open>strconv.ParseBool\<close> accepts exactly twelve spellings. \<open>strconv.ParseFloat\<close> accepts the
  names of the infinities and of NaN in any letter case (a sign only before an infinity);
  any other text it accepts begins with a sign, a digit or a point, and what it makes of
  such a text, with its rounding and its range error, is the parameter \<open>numeric\<close>.
\<close>

definition parseBool :: "string \<Rightarrow> bool option" where
  "parseBool s =
     (if s \<in> set [''1'', ''t'', ''T'', ''TRUE'', ''true'', ''True''] then Some True
      else if s \<in> set [''0'', ''f'', ''F'', ''FALSE'', ''false'', ''False''] then Some False
      else None)"

definition asciiLower :: "char \<Rightarrow> char" where
  "asciiLower c =
     (case map_of (zip ''ABCDEFGHIJKLMNOPQRSTUVWXYZ'' ''abcdefghijklmnopqrstuvwxyz'') c of
        Some l \<Rightarrow> l
      | None \<Rightarrow> c)"

definition parseFloat :: "(string \<Rightarrow> float64 option) \<Rightarrow> string \<Rightarrow> float64 option" where
  "parseFloat numeric s =
     (let signed = (s \<noteq> [] \<and> (hd s = CHR ''+'' \<or> hd s = CHR ''-''));
          name = map asciiLower (if signed then tl s else s)
      in if name = ''inf'' \<or> name = ''infinity''
           then Some (if s \<noteq> [] \<and> hd s = CHR ''-'' then NegInf else PosInf)
         else if map asciiLower s = ''nan'' then Some NaN
         else if s \<noteq> [] \<and> hd s \<in> set ''+-.0123456789'' then numeric s
         else None)"

text \<open>The unwrapping of a quoted string: \<open>strings.Trim\<close> takes every quote off both ends.\<close>

definition unquote :: "string \<Rightarrow> string" where
  "unquote valStr =
     (if strHasPrefix valStr [CHR 0x22] \<and> strHasSuffix valStr [CHR 0x22]
      then strTrim valStr [CHR 0x22] else valStr)"

subsection \<open>The one-shot read\<close>

text \<open>
  \<open>reValue\<close> is \<open>CHIP:DMG: Value = (.*)\<close>: the first place where the literal text stands,
  and, as the group, what follows it up to the end of that line. \<open>attributeValue\<close> is the
  value \<open>readAttribute\<close> computes from the captured stdout and \<open>valueParsed\<close> its flag
  \<open>parsed\<close>.
\<close>

definition valueMarker :: string where
  "valueMarker = ''CHIP:DMG: Value = ''"

definition findValue :: "string \<Rightarrow> string option" where
  "findValue stdout =
     (case strIndex stdout valueMarker of
        Some idx \<Rightarrow> Some (takeWhile (\<lambda>c. c \<noteq> CHR 0x0A) (drop (idx + length valueMarker) stdout))
      | None \<Rightarrow> None)"

definition interpretValue :: "(string \<Rightarrow> float64 option) \<Rightarrow> string \<Rightarrow> AttributeValue" where
  "interpretValue numeric valStr =
     (case parseBool valStr of
        Some bVal \<Rightarrow> VBool bVal
      | None \<Rightarrow>
          (case parseInt 64 valStr of
             Some iVal \<Rightarrow> VInt iVal
           | None \<Rightarrow>
               (case parseFloat numeric valStr of
                  Some fVal \<Rightarrow> VFloat fVal
                | None \<Rightarrow> VStr (unquote valStr))))"

definition valueParsed :: "string \<Rightarrow> bool" where
  "valueParsed stdout = (findValue stdout \<noteq> None)"

definition attributeValue :: "(string \<Rightarrow> float64 option) \<Rightarrow> string \<Rightarrow> AttributeValue" where
  "attributeValue numeric stdout =
     (case findValue stdout of
        Some m \<Rightarrow> interpretValue numeric (strTrimSpace m)
      | None \<Rightarrow> VStr (''Raw: '' @ stdout))"

subsection \<open>The subscription stream\<close>

text \<open>
  \<open>reDataLine\<close> is \<open>CHIP:DMG:\s+Data = (.*) \((.*)\)\<close>. \<open>firstMatch\<close> tries a matcher at
  every position from the left. At one position the literal texts and the white space
  (\<open>\s\<close> is tab, line feed, form feed, carriage return and space) leave no choice; the
  first group is greedy, so it ends at the last \<open> (\<close> that still has a closing bracket
  after it, and the second group runs to the last closing bracket of the line.
\<close>

fun firstMatch :: "(string \<Rightarrow> 'a option) \<Rightarrow> string \<Rightarrow> 'a option" where
  "firstMatch m [] = m []"
| "firstMatch m (c # cs) =
     (case m (c # cs) of Some r \<Rightarrow> Some r | None \<Rightarrow> firstMatch m cs)"

definition regexSpace :: "char \<Rightarrow> bool" where
  "regexSpace c = (c \<in> set [CHR 0x09, CHR 0x0A, CHR 0x0C, CHR 0x0D, CHR 0x20])"













section \<open>The outbound queue of a client\<close>

text \<open>
  \<open>send\<close> is a buffered channel of 256 encoded messages, which the hub closes when it
  unregisters the client. The queue holds the messages whose encodings were sent.
  \<open>json.Marshal\<close> fails on exactly one kind of message the handlers build: an attribute
  update whose value is a \<open>float64\<close> that is not finite.
\<close>

record Client =
  send :: "ServerMessage list"
  closed :: bool

definition sendCapacity :: nat where
  "sendCapacity = 256"

definition marshals :: "ServerMessage \<Rightarrow> bool" where
  "marshals msg =
     (case ServerMessage.Payload msg of
        AttributeUpdate u \<Rightarrow>
          (case AttributeUpdatePayload.Value u of
             VFloat (Finite r) \<Rightarrow> True
           | VFloat f \<Rightarrow> False
           | v \<Rightarrow> True)
      | other \<Rightarrow> True)"

text \<open>
  The result of a call: it returns, or the goroutine panics (with the message, and what
  had been done until then), which ends the server since nothing recovers. \<open>trySend\<close> is
  the \<open>select\<close> with a \<open>default\<close> branch: a send on a closed channel panics, a send on a
  full one is skipped.
\<close>

datatype 'a outcome = Returns 'a | Panics string 'a

definition trySend :: "Client \<Rightarrow> ServerMessage \<Rightarrow> Client outcome" where
  "trySend c bytes =
     (if closed c then Panics ''send on closed channel'' c
      else if length (send c) < sendCapacity then Returns (c\<lparr>send := send c @ [bytes]\<rparr>)
      else Returns c)"

definition notifyClientLog :: "Client \<Rightarrow> string \<Rightarrow> string \<Rightarrow> Client outcome" where
  "notifyClientLog c logType data =
     (let msg = \<lparr> ServerMessage.Type = logType, ServerMessage.Payload = LogText data \<rparr>
      in if \<not> marshals msg then Returns c else trySend c msg)"

definition notifyClient :: "Client \<Rightarrow> string \<Rightarrow> payload \<Rightarrow> Client outcome" where
  "notifyClient c msgType p =
     (let msg = \<lparr> ServerMessage.Type = msgType, ServerMessage.Payload = p \<rparr>
      in if \<not> marshals msg then Returns c else trySend c msg)"

definition sendPayload :: "Client \<Rightarrow> string \<Rightarrow> payload \<Rightarrow> Client outcome" where
  "sendPayload c msgType p = notifyClient c msgType p"

section \<open>The command dispatcher\<close>

text \<open>
  What a handler does is the list of its calls that reach outside it, in program order:
  \<open>Logged\<close> is a call of \<open>notifyClientLog\<close>, \<open>Sent\<close> one of \<open>sendPayload\<close> or
  \<open>notifyClient\<close>, \<open>Ran\<close> a subprocess of the tool run to its end with the given
  arguments, \<open>Started\<close> a \<open>go\<close> statement, and \<open>ParserLogged text\<close> stands for the
  progress messages \<open>parseDiscoveryOutput\<close> sends while it parses \<open>text\<close>. Lines written
  to the server's own log are not part of it.
\<close>

datatype goroutine =
    ReadAttribute string string string string
  | StartAttributeSubscription string string string string string string

datatype action =
    Logged string string
  | Sent string payload
  | Ran "string list"
  | Started goroutine
  | ParserLogged string

text \<open>
  What a handler receives from outside: the result of each run of the tool (the error
  \<open>Run\<close> returned, as its text, and the two captured streams), whether the discovery's
  context had passed its deadline, the error of \<open>os.Getwd\<close>, the next value of the random
  source, and the library functions that are taken as given: \<open>strings.ToLower\<close>, the
  numeric part of \<open>ParseFloat\<close>, \<open>%v\<close> of a decoded JSON value, the conversion \<open>int(f)\<close>,
  and \<open>json.Unmarshal\<close> of the payload into each payload struct (\<open>Inl\<close> its error).
\<close>

record RunResult =
  runErr :: "string option"
  runStdout :: string
  runStderr :: string

record world =
  runTool :: "string list \<Rightarrow> RunResult"
  deadlineExceeded :: bool
  getwdErr :: "string option"
  randSource :: nat
  toLower :: "string \<Rightarrow> string"
  parseNumeric :: "string \<Rightarrow> float64 option"
  fmtValue :: "jvalue \<Rightarrow> string"
  intOfFloat :: "float64 \<Rightarrow> int"
  unmarshalCommission :: "jvalue \<Rightarrow> string + CommissionDevicePayload"
  unmarshalCommand :: "jvalue \<Rightarrow> string + DeviceCommandPayload"
  unmarshalStatus :: "jvalue \<Rightarrow> string + DeviceGetStatusPayload"
  unmarshalSubscribe :: "jvalue \<Rightarrow> string + SubscribeAttributePayload"

definition chipToolPath :: string where
  "chipToolPath = ''/snap/bin/chip-tool''"

text \<open>\<open>rand.Intn(n)\<close> is below \<open>n\<close>; \<open>%v\<close> of an error; \<open>strings.Join\<close>; \<open>strconv.Itoa\<close>.\<close>

definition randIntn :: "world \<Rightarrow> nat \<Rightarrow> nat" where
  "randIntn w n = randSource w mod n"

definition showErr :: "string option \<Rightarrow> string" where
  "showErr e = (case e of None \<Rightarrow> ''<nil>'' | Some text \<Rightarrow> text)"

fun strJoin :: "string list \<Rightarrow> string \<Rightarrow> string" where
  "strJoin [] sep = []"
| "strJoin [x] sep = x"
| "strJoin (x # y # ys) sep = x @ sep @ strJoin (y # ys) sep"

definition itoa :: "int \<Rightarrow> string" where
  "itoa i = (if i < 0 then ''-'' @ showNat (nat (- i)) else showNat (nat i))"

definition outputText :: "string \<Rightarrow> string \<Rightarrow> string" where
  "outputText out errOut = ''Stdout:'' @ [CHR 0x0A] @ out @ [CHR 0x0A] @ ''Stderr:'' @ [CHR 0x0A] @ errOut"

subsection \<open>\<open>readAttribute\<close>\<close>

definition readAttribute :: "world \<Rightarrow> string \<Rightarrow> string \<Rightarrow> string \<Rightarrow> string \<Rightarrow> action list" where
  "readAttribute w nodeId endpointID clusterName attributeName =
     (let cmdArgs = [toLower w clusterName, ''read'', attributeName, nodeId, endpointID];
          r = runTool w cmdArgs
      in [Logged ''commissioning_log''
            (''Reading attribute '' @ clusterName @ ''.'' @ attributeName @ '' for Node ''
               @ nodeId @ ''...''),
          Ran cmdArgs]
         @ (case runErr r of
              Some e \<Rightarrow>
                [Logged ''commissioning_log''
                   (''Failed to read attribute '' @ clusterName @ ''.'' @ attributeName @ '': '' @ e)]
            | None \<Rightarrow>
                (if valueParsed (runStdout r) then []
                 else [Logged ''commissioning_log''
                         (''Could not parse value for '' @ clusterName @ ''.'' @ attributeName)])
                @ [Sent ''attribute_update''
                     (AttributeUpdate
                        \<lparr> AttributeUpdatePayload.NodeID = nodeId,
                          AttributeUpdatePayload.EndpointID = endpointID,
                          AttributeUpdatePayload.Cluster = clusterName,
                          AttributeUpdatePayload.Attribute = attributeName,
                          AttributeUpdatePayload.Value = attributeValue (parseNumeric w) (runStdout r) \<rparr>)]))"

subsection \<open>\<open>discover_devices\<close>\<close>

definition discoveryErrMsg :: "bool \<Rightarrow> RunResult \<Rightarrow> string" where
  "discoveryErrMsg timedOut r =
     (if timedOut
      then ''Discovery command timed out after 1m0s. Stdout: '' @ runStdout r
             @ '', Stderr: '' @ runStderr r
      else ''Error running chip-tool 'discover commissionables': '' @ showErr (runErr r)
             @ ''. Stdout: '' @ runStdout r @ '', Stderr: '' @ runStderr r)"

text \<open>
  The statements that build and send the error result are not under any test of \<open>err\<close>:
  they run on every request, and the handler goes on to parse and to send a second result.
\<close>

definition handleDiscoverDevices :: "world \<Rightarrow> action list" where
  "handleDiscoverDevices w =
     (let cmdArgs = [''discover'', ''commissionables''];
          r = runTool w cmdArgs;
          errMsg = discoveryErrMsg (deadlineExceeded w) r
      in [Logged ''discovery_log'' ''Starting 'discover commissionables' via chip-tool...'',
          Ran cmdArgs,
          Logged ''discovery_log''
            ((if deadlineExceeded w then ''Discovery timed out: '' else ''Error during discovery: '')
               @ errMsg),
          Sent ''discovery_result''
            (DiscoveryResult \<lparr> DiscoveryResultPayload.Devices = [],
                               DiscoveryResultPayload.Error = errMsg \<rparr>),
          Logged ''discovery_log''
            ''Discovery command 'discover commissionables' finished. Output processing...'',
          ParserLogged (runStdout r),
          Sent ''discovery_result''
            (DiscoveryResult \<lparr> DiscoveryResultPayload.Devices = parseDiscoveryOutput (runStdout r),
                               DiscoveryResultPayload.Error = [] \<rparr>)])"

subsection \<open>\<open>commission_device\<close>\<close>

definition emptyStatus :: CommissioningStatusPayload where
  "emptyStatus =
     \<lparr> CommissioningStatusPayload.Success = False, CommissioningStatusPayload.NodeID = [],
       CommissioningStatusPayload.Details = [], CommissioningStatusPayload.Error = [],
       CommissioningStatusPayload.OriginalDiscriminator = [],
       CommissioningStatusPayload.EndpointId = [],
       CommissioningStatusPayload.DiscriminatorAssociatedWithRequest = [] \<rparr>"

text \<open>
  The regular expression applied to the output of the \<open>parts-list\<close> read is
  \<open>Data = \[\s*(?:\[\d+\.\d+\] \[\d+:\d+\] \[DMG\]\s*)*([0-9]+) \(unsigned\)\<close>. Each of its
  pieces ends where a byte of another class begins, so a match at one position is found
  without search: \<open>litThen\<close> reads a literal text, \<open>digitsThen\<close> one digit or more and then
  a literal text, \<open>logPrefix\<close> one repetition of the group, \<open>skipPrefixes\<close> all of them.
\<close>

definition litThen :: "string \<Rightarrow> string \<Rightarrow> string option" where
  "litThen lit s = (if strHasPrefix s lit then Some (drop (length lit) s) else None)"

definition digitsThen :: "string \<Rightarrow> string \<Rightarrow> string option" where
  "digitsThen lit s =
     (if takeWhile isDigit s \<noteq> [] then litThen lit (dropWhile isDigit s) else None)"

definition logPrefix :: "string \<Rightarrow> string option" where
  "logPrefix s =
     (case litThen ''['' s of
        None \<Rightarrow> None
      | Some s1 \<Rightarrow>
          (case digitsThen ''.'' s1 of
             None \<Rightarrow> None
           | Some s2 \<Rightarrow>
               (case digitsThen ''] ['' s2 of
                  None \<Rightarrow> None
                | Some s3 \<Rightarrow>
                    (case digitsThen '':'' s3 of
                       None \<Rightarrow> None
                     | Some s4 \<Rightarrow>
                         (case digitsThen ''] [DMG]'' s4 of
                            None \<Rightarrow> None
                          | Some s5 \<Rightarrow> Some (dropWhile regexSpace s5))))))"

lemma litThen_length: "litThen lit s = Some r \<Longrightarrow> length r \<le> length s"
  by (auto simp: litThen_def split: if_splits)

lemma digitsThen_length: "digitsThen lit s = Some r \<Longrightarrow> length r \<le> length s"
proof -
  assume a: "digitsThen lit s = Some r"
  then have "litThen lit (dropWhile isDigit s) = Some r"
    by (simp add: digitsThen_def split: if_splits)
  then have "length r \<le> length (dropWhile isDigit s)" by (rule litThen_length)
  moreover have "length (dropWhile isDigit s) \<le> length s" by (rule length_dropWhile_le)
  ultimately show ?thesis by simp
qed

lemma logPrefix_shorter:
  assumes "logPrefix s = Some r"
  shows "length r < length s"
proof -
  from assms obtain s1 s2 s3 s4 s5 where
    1: "litThen ''['' s = Some s1" and 2: "digitsThen ''.'' s1 = Some s2" and
    3: "digitsThen ''] ['' s2 = Some s3" and 4: "digitsThen '':'' s3 = Some s4" and
    5: "digitsThen ''] [DMG]'' s4 = Some s5" and r: "r = dropWhile regexSpace s5"
    by (auto simp: logPrefix_def split: option.splits)
  from 1 have "length s1 < length s"
    by (cases s) (auto simp: litThen_def split: if_splits)
  moreover from 2 have "length s2 \<le> length s1" by (rule digitsThen_length)
  moreover from 3 have "length s3 \<le> length s2" by (rule digitsThen_length)
  moreover from 4 have "length s4 \<le> length s3" by (rule digitsThen_length)
  moreover from 5 have "length s5 \<le> length s4" by (rule digitsThen_length)
  moreover have "length r \<le> length s5" unfolding r by (rule length_dropWhile_le)
  ultimately show ?thesis by simp
qed

function skipPrefixes :: "string \<Rightarrow> string option" where
  "skipPrefixes s =
     (if strHasPrefix s ''[''
      then (case logPrefix s of Some r \<Rightarrow> skipPrefixes r | None \<Rightarrow> None)
      else Some s)"
  by pat_completeness auto
termination
proof (relation "measure length")
  show "wf (measure length)" by simp
next
  fix s r :: string
  assume "logPrefix s = Some r"
  then have "length r < length s" by (rule logPrefix_shorter)
  then show "(r, s) \<in> measure length" by simp
qed

declare skipPrefixes.simps [simp del]


lemma skipPrefixes_step:
  "strHasPrefix s ''['' \<Longrightarrow>
     skipPrefixes s = (case logPrefix s of Some r \<Rightarrow> skipPrefixes r | None \<Rightarrow> None)"
  by (subst skipPrefixes.simps) simp

definition matchPartsAt :: "string \<Rightarrow> string option" where
  "matchPartsAt s =
     (case litThen ''Data = ['' s of
        None \<Rightarrow> None
      | Some s1 \<Rightarrow>
          (case skipPrefixes (dropWhile regexSpace s1) of
             None \<Rightarrow> None
           | Some s2 \<Rightarrow>
               (case digitsThen '' (unsigned)'' s2 of
                  None \<Rightarrow> None
                | Some s3 \<Rightarrow> Some (takeWhile isDigit s2))))"

definition findPartsList :: "string \<Rightarrow> string option" where
  "findPartsList text = firstMatch matchPartsAt text"

definition successReported :: "string \<Rightarrow> string \<Rightarrow> bool" where
  "successReported out errOut =
     (strContains out ''Commissioning success'' \<or> strContains out ''commissioning complete''
      \<or> strContains errOut ''Commissioning success''
      \<or> (strContains errOut ''commissioning complete'' \<and> errOut = []))"

text \<open>The four commissioning statuses the handler builds once the tool has run.\<close>

definition readFailedStatus :: "string option \<Rightarrow> string \<Rightarrow> string \<Rightarrow> CommissioningStatusPayload" where
  "readFailedStatus e commissioningOutput disc =
     emptyStatus
       \<lparr> CommissioningStatusPayload.Success := False,
         CommissioningStatusPayload.Error :=
           ''Error commissioning device: '' @ showErr e @ ''. Output: '' @ commissioningOutput,
         CommissioningStatusPayload.Details := commissioningOutput,
         CommissioningStatusPayload.OriginalDiscriminator := disc,
         CommissioningStatusPayload.DiscriminatorAssociatedWithRequest := disc \<rparr>"

definition commissionedStatus :: "string \<Rightarrow> string \<Rightarrow> string \<Rightarrow> string \<Rightarrow> CommissioningStatusPayload" where
  "commissionedStatus nodeId endpoint commissioningOutput disc =
     emptyStatus
       \<lparr> CommissioningStatusPayload.Success := True,
         CommissioningStatusPayload.NodeID := nodeId,
         CommissioningStatusPayload.Details :=
           ''Device commissioned successfully. '' @ commissioningOutput,
         CommissioningStatusPayload.EndpointId := endpoint,
         CommissioningStatusPayload.OriginalDiscriminator := disc,
         CommissioningStatusPayload.DiscriminatorAssociatedWithRequest := disc \<rparr>"

definition reportedStatus :: "string \<Rightarrow> string \<Rightarrow> CommissioningStatusPayload" where
  "reportedStatus commissioningOutput disc =
     emptyStatus
       \<lparr> CommissioningStatusPayload.Success := True,
         CommissioningStatusPayload.Details :=
           ''Commissioning reported success. Node ID may need to be queried or was already known. Output: ''
             @ commissioningOutput,
         CommissioningStatusPayload.OriginalDiscriminator := disc,
         CommissioningStatusPayload.DiscriminatorAssociatedWithRequest := disc \<rparr>"

definition unclearStatus :: "string \<Rightarrow> string \<Rightarrow> CommissioningStatusPayload" where
  "unclearStatus commissioningOutput disc =
     emptyStatus
       \<lparr> CommissioningStatusPayload.Success := False,
         CommissioningStatusPayload.Error :=
           ''Commissioning finished, but success or Node ID unclear from output. Check logs.'',
         CommissioningStatusPayload.Details := commissioningOutput,
         CommissioningStatusPayload.OriginalDiscriminator := disc,
         CommissioningStatusPayload.DiscriminatorAssociatedWithRequest := disc \<rparr>"

definition executingLog :: "string \<Rightarrow> string list \<Rightarrow> action" where
  "executingLog logType cmdArgs =
     Logged logType (''Executing: '' @ chipToolPath @ '' '' @ strJoin cmdArgs '' '')"

text \<open>
  The two runs and what follows them, for the payload as it is once the node id has been
  set. The second run writes into the same two builders as the first, so \<open>stdout\<close> and
  \<open>stderr\<close> then hold the output of both; \<open>err\<close> is the error of the second run only.
\<close>

definition pairAndRead :: "world \<Rightarrow> CommissionDevicePayload \<Rightarrow> action list" where
  "pairAndRead w payload =
     (let nodeId = CommissionDevicePayload.NodeID payload;
          disc = CommissionDevicePayload.LongDiscriminator payload;
          cmdArgs = [''pairing'', ''onnetwork-long'', nodeId,
                     CommissionDevicePayload.SetupCode payload, disc];
          r1 = runTool w cmdArgs;
          commissioningOutput = outputText (runStdout r1) (runStderr r1);
          cmdArgs2 = [''descriptor'', ''read'', ''parts-list'', nodeId, ''0''];
          r2 = runTool w cmdArgs2;
          out = runStdout r1 @ runStdout r2;
          errOut = runStderr r1 @ runStderr r2;
          match = findPartsList out;
          ran = [executingLog ''commissioning_log'' cmdArgs,
                 Ran cmdArgs,
                 Logged ''commissioning_log''
                   (''Commissioning command output:'' @ [CHR 0x0A] @ commissioningOutput),
                 Ran cmdArgs2]
      in if runErr r2 \<noteq> None \<and> match = None then
           ran @ [Sent ''commissioning_status''
                    (CommissioningStatus (readFailedStatus (runErr r2) commissioningOutput disc))]
         else
           (case match of
              None \<Rightarrow> ran
            | Some endpoint \<Rightarrow>
                ran @
                [Sent ''commissioning_status''
                   (CommissioningStatus
                      (commissionedStatus nodeId endpoint commissioningOutput disc)),
                 Started (ReadAttribute nodeId ''1'' ''BasicInformation'' ''NodeLabel''),
                 Sent ''commissioning_status''
                   (CommissioningStatus
                      (if successReported out errOut then reportedStatus commissioningOutput disc
                       else unclearStatus commissioningOutput disc))]))"

text \<open>
  After the validation: the node id of the payload is overwritten with the generated one
  before anything reads it.
\<close>

definition commission :: "world \<Rightarrow> CommissionDevicePayload \<Rightarrow> action list" where
  "commission w payload =
     pairAndRead w (payload\<lparr>CommissionDevicePayload.NodeID := pad4 (randIntn w 100000)\<rparr>)"

definition handleCommissionDevice :: "world \<Rightarrow> jvalue \<Rightarrow> action list" where
  "handleCommissionDevice w p =
     (case unmarshalCommission w p of
        Inl e \<Rightarrow>
          [Logged ''commissioning_log'' (''Invalid payload for commission_device: '' @ e),
           Sent ''commissioning_status''
             (CommissioningStatus
                (emptyStatus\<lparr> CommissioningStatusPayload.Success := False,
                              CommissioningStatusPayload.Error := ''Invalid payload: '' @ e \<rparr>))]
      | Inr payload \<Rightarrow>
          if CommissionDevicePayload.SetupCode payload = [] then
            [Logged ''commissioning_log'' ''Missing setupCode or nodeIdToAssign for commissioning.'',
             Sent ''commissioning_status''
               (CommissioningStatus
                  (emptyStatus
                     \<lparr> CommissioningStatusPayload.Success := False,
                       CommissioningStatusPayload.Error := ''Missing setupCode or nodeIdToAssign.'',
                       CommissioningStatusPayload.OriginalDiscriminator :=
                         CommissionDevicePayload.LongDiscriminator payload \<rparr>))]
          else
            Logged ''commissioning_log''
              (''Attempting to commission Node ID '' @ CommissionDevicePayload.CommissioningMode payload
                 @ '' with setup code '' @ CommissionDevicePayload.SetupCode payload
                 @ '' (using 'pairing code')'')
            # (case getwdErr w of Some e \<Rightarrow> [] | None \<Rightarrow> commission w payload))"

subsection \<open>\<open>device_command\<close>\<close>

definition emptyResponse :: CommandResponsePayload where
  "emptyResponse =
     \<lparr> CommandResponsePayload.Success = False, CommandResponsePayload.NodeID = [],
       CommandResponsePayload.Details = [], CommandResponsePayload.Error = [] \<rparr>"

text \<open>
  The arguments of \<open>MoveToLevel\<close>: the level, the transition time or \<open>0\<close>, and two zeros;
  \<open>None\<close> when \<open>level\<close> is missing or is no number.
\<close>

definition levelArgs :: "world \<Rightarrow> (string \<times> jvalue) list \<Rightarrow> string list option" where
  "levelArgs w params =
     (case map_of params ''level'' of
        Some (JNumber levelVal) \<Rightarrow>
          Some ([itoa (intOfFloat w levelVal)]
                @ (case map_of params ''transitionTime'' of
                     Some (JNumber ttVal) \<Rightarrow> [itoa (intOfFloat w ttVal)]
                   | _ \<Rightarrow> [''0''])
                @ [''0'', ''0''])
      | _ \<Rightarrow> None)"

definition genericWarning :: "world \<Rightarrow> DeviceCommandPayload \<Rightarrow> string \<times> jvalue \<Rightarrow> action" where
  "genericWarning w payload kv =
     Logged ''command_response''
       (''Warning: Generic param handling for '' @ DeviceCommandPayload.Cluster payload @ ''.''
          @ DeviceCommandPayload.Command payload @ '' - '' @ fst kv @ '':'' @ fmtValue w (snd kv)
          @ ''. May not be correct for chip-tool.'')"

definition errorMarked :: "RunResult \<Rightarrow> bool" where
  "errorMarked r =
     (strContains (runStdout r) ''CHIP Error'' \<or> strContains (runStderr r) ''CHIP Error''
      \<or> strContains (runStderr r) ''Error:'')"

definition refreshReads :: "DeviceCommandPayload \<Rightarrow> string \<Rightarrow> action list" where
  "refreshReads payload endpointID =
     (if DeviceCommandPayload.Cluster payload = ''OnOff''
         \<and> (DeviceCommandPayload.Command payload = ''On''
              \<or> DeviceCommandPayload.Command payload = ''Off''
              \<or> DeviceCommandPayload.Command payload = ''Toggle'')
      then [Started (ReadAttribute (DeviceCommandPayload.NodeID payload) endpointID ''OnOff'' ''OnOff'')]
      else [])
     @ (if DeviceCommandPayload.Cluster payload = ''LevelControl''
           \<and> DeviceCommandPayload.Command payload = ''MoveToLevel''
        then [Started (ReadAttribute (DeviceCommandPayload.NodeID payload) endpointID
                         ''LevelControl'' ''CurrentLevel'')]
        else [])"

text \<open>The run of the command and the classification of its result.\<close>

definition runCommand :: "world \<Rightarrow> DeviceCommandPayload \<Rightarrow> string list \<Rightarrow> action list" where
  "runCommand w payload args =
     (let endpointID = ''1'';
          nodeId = DeviceCommandPayload.NodeID payload;
          cmdArgs = args @ [nodeId, endpointID];
          r = runTool w cmdArgs;
          cmdOutput = outputText (runStdout r) (runStderr r)
      in [executingLog ''command_response'' cmdArgs, Ran cmdArgs]
         @ (case runErr r of
              Some e \<Rightarrow>
                [Sent ''command_response''
                   (CommandResponse
                      (emptyResponse
                         \<lparr> CommandResponsePayload.Success := False,
                           CommandResponsePayload.NodeID := nodeId,
                           CommandResponsePayload.Error :=
                             ''Error executing '' @ DeviceCommandPayload.Command payload @ ''.''
                               @ DeviceCommandPayload.Cluster payload @ '' on '' @ nodeId @ '': ''
                               @ e @ ''. Output: '' @ cmdOutput,
                           CommandResponsePayload.Details := cmdOutput \<rparr>))]
            | None \<Rightarrow>
                if errorMarked r then
                  [Sent ''command_response''
                     (CommandResponse
                        (emptyResponse
                           \<lparr> CommandResponsePayload.Success := False,
                             CommandResponsePayload.NodeID := nodeId,
                             CommandResponsePayload.Error :=
                               ''Command executed but chip-tool reported an error in its output.'',
                             CommandResponsePayload.Details := cmdOutput \<rparr>))]
                else
                  Sent ''command_response''
                    (CommandResponse
                       (emptyResponse
                          \<lparr> CommandResponsePayload.Success := True,
                            CommandResponsePayload.NodeID := nodeId,
                            CommandResponsePayload.Details :=
                              ''Command executed. Output: '' @ cmdOutput \<rparr>))
                  # refreshReads payload endpointID))"

text \<open>
  The arguments after the two lower-cased names, by cluster; together with the warnings
  sent while they are built. \<open>None\<close> is the rejection of \<open>MoveToLevel\<close> without a level.
\<close>

definition commandArgs ::
  "world \<Rightarrow> DeviceCommandPayload \<Rightarrow> (action list \<times> string list) option" where
  "commandArgs w payload =
     (let cmdArgs = [toLower w (DeviceCommandPayload.Cluster payload),
                     toLower w (DeviceCommandPayload.Command payload)]
      in if DeviceCommandPayload.Cluster payload = ''OnOff'' then Some ([], cmdArgs)
         else if DeviceCommandPayload.Cluster payload = ''LevelControl'' then
           (if DeviceCommandPayload.Command payload = ''MoveToLevel'' then
              (case levelArgs w (DeviceCommandPayload.Params payload) of
                 None \<Rightarrow> None
               | Some extra \<Rightarrow> Some ([], cmdArgs @ extra))
            else Some ([], cmdArgs))
         else Some (map (genericWarning w payload) (DeviceCommandPayload.Params payload),
                    cmdArgs @ map (\<lambda>kv. fmtValue w (snd kv)) (DeviceCommandPayload.Params payload)))"

definition commandValid :: "DeviceCommandPayload \<Rightarrow> bool" where
  "commandValid payload =
     (DeviceCommandPayload.NodeID payload \<noteq> [] \<and> DeviceCommandPayload.Cluster payload \<noteq> []
      \<and> DeviceCommandPayload.Command payload \<noteq> [])"

definition handleDeviceCommand :: "world \<Rightarrow> jvalue \<Rightarrow> action list" where
  "handleDeviceCommand w p =
     (case unmarshalCommand w p of
        Inl e \<Rightarrow>
          [Logged ''command_response'' (''Invalid payload for device_command: '' @ e),
           Sent ''command_response''
             (CommandResponse
                (emptyResponse\<lparr> CommandResponsePayload.Success := False,
                                CommandResponsePayload.Error := ''Invalid payload: '' @ e \<rparr>))]
      | Inr payload \<Rightarrow>
          if \<not> commandValid payload then
            [Sent ''command_response''
               (CommandResponse
                  (emptyResponse
                     \<lparr> CommandResponsePayload.Success := False,
                       CommandResponsePayload.NodeID := DeviceCommandPayload.NodeID payload,
                       CommandResponsePayload.Error := ''Missing nodeId, cluster, or command'' \<rparr>))]
          else
            (case commandArgs w payload of
               None \<Rightarrow>
                 [Sent ''command_response''
                    (CommandResponse
                       (emptyResponse
                          \<lparr> CommandResponsePayload.Success := False,
                            CommandResponsePayload.NodeID := DeviceCommandPayload.NodeID payload,
                            CommandResponsePayload.Error :=
                              ''Missing or invalid 'level' parameter for MoveToLevel'' \<rparr>))]
             | Some (warnings, args) \<Rightarrow> warnings @ runCommand w payload args))"

subsection \<open>\<open>get_status\<close>\<close>

text \<open>
  \<open>Data = (true|false)\<close> on the captured stdout; \<open>None\<close> is the nil slice that
  \<open>FindStringSubmatch\<close> returns when nothing matches. The handler returns early only when
  the run failed and nothing matched; in every other case it reads \<open>match[1]\<close>, which
  panics on the nil slice.
\<close>

definition findOnOff :: "string \<Rightarrow> string option" where
  "findOnOff text =
     firstMatch
       (\<lambda>s. if strHasPrefix s ''Data = true'' then Some ''true''
            else if strHasPrefix s ''Data = false'' then Some ''false''
            else None)
       text"

definition handleGetStatus :: "world \<Rightarrow> jvalue \<Rightarrow> action list outcome" where
  "handleGetStatus w p =
     (case p of
        JObject members \<Rightarrow>
          (case unmarshalStatus w p of
             Inl e \<Rightarrow> Returns []
           | Inr statusPayload \<Rightarrow>
               (let cmdArgs = [''onoff'', ''read'', ''on-off'', deviceNodeId statusPayload,
                               deviceEndpointId statusPayload];
                    r = runTool w cmdArgs;
                    match = findOnOff (runStdout r)
                in if runErr r \<noteq> None \<and> match = None then Returns [Ran cmdArgs]
                   else
                     (case match of
                        None \<Rightarrow>
                          Panics ''runtime error: index out of range [1] with length 0''
                            [Ran cmdArgs]
                      | Some v \<Rightarrow>
                          Returns
                            [Ran cmdArgs,
                             Sent ''get_status''
                               (DeviceStatus \<lparr> nodeID = deviceNodeId statusPayload,
                                               status = v \<rparr>)])))
      | other \<Rightarrow> Returns [])"

subsection \<open>\<open>subscribe_attribute\<close> and the dispatch\<close>

definition handleSubscribeAttribute :: "world \<Rightarrow> jvalue \<Rightarrow> action list" where
  "handleSubscribeAttribute w p =
     (case unmarshalSubscribe w p of
        Inl e \<Rightarrow>
          [Logged ''subscription_log'' (''Invalid payload for subscribe_attribute: '' @ e),
           Sent ''error'' (ErrorMessage (''Invalid subscribe_attribute payload: '' @ e))]
      | Inr payload \<Rightarrow>
          if SubscribeAttributePayload.NodeID payload = []
             \<or> SubscribeAttributePayload.Cluster payload = []
             \<or> SubscribeAttributePayload.Attribute payload = []
             \<or> SubscribeAttributePayload.MinInterval payload = []
             \<or> SubscribeAttributePayload.MaxInterval payload = []
          then
            [Logged ''subscription_log'' ''Missing parameters for subscribe_attribute.'',
             Sent ''error''
               (ErrorMessage
                  ''Missing parameters for subscribe_attribute (nodeId, cluster, attribute, minInterval, maxInterval required).'')]
          else
            [Started
               (StartAttributeSubscription
                  (SubscribeAttributePayload.NodeID payload)
                  (if SubscribeAttributePayload.EndpointID payload = [] then ''1''
                   else SubscribeAttributePayload.EndpointID payload)
                  (SubscribeAttributePayload.Cluster payload)
                  (SubscribeAttributePayload.Attribute payload)
                  (SubscribeAttributePayload.MinInterval payload)
                  (SubscribeAttributePayload.MaxInterval payload))])"

definition handleClientMessage :: "world \<Rightarrow> ClientMessage \<Rightarrow> action list outcome" where
  "handleClientMessage w msg =
     (if ClientMessage.Type msg = ''discover_devices'' then Returns (handleDiscoverDevices w)
      else if ClientMessage.Type msg = ''commission_device''
        then Returns (handleCommissionDevice w (ClientMessage.Payload msg))
      else if ClientMessage.Type msg = ''device_command''
        then Returns (handleDeviceCommand w (ClientMessage.Payload msg))
      else if ClientMessage.Type msg = ''get_status''
        then handleGetStatus w (ClientMessage.Payload msg)
      else if ClientMessage.Type msg = ''subscribe_attribute''
        then Returns (handleSubscribeAttribute w (ClientMessage.Payload msg))
      else Returns
             [Sent ''error''
                (ErrorMessage (''Unknown command type received: '' @ ClientMessage.Type msg))])"

text \<open>What a handler sends of each kind, and what it runs.\<close>

fun discoveryResults :: "action list \<Rightarrow> DiscoveryResultPayload list" where
  "discoveryResults [] = []"
| "discoveryResults (Sent t (DiscoveryResult p) # as) = p # discoveryResults as"
| "discoveryResults (a # as) = discoveryResults as"

fun commissioningStatuses :: "action list \<Rightarrow> CommissioningStatusPayload list" where
  "commissioningStatuses [] = []"
| "commissioningStatuses (Sent t (CommissioningStatus p) # as) = p # commissioningStatuses as"
| "commissioningStatuses (a # as) = commissioningStatuses as"

fun commandResponses :: "action list \<Rightarrow> CommandResponsePayload list" where
  "commandResponses [] = []"
| "commandResponses (Sent t (CommandResponse p) # as) = p # commandResponses as"
| "commandResponses (a # as) = commandResponses as"

fun runs :: "action list \<Rightarrow> string list list" where
  "runs [] = []"
| "runs (Ran argv # as) = argv # runs as"
| "runs (a # as) = runs as"

fun started :: "action list \<Rightarrow> goroutine list" where
  "started [] = []"
| "started (Started g # as) = g # started as"
| "started (a # as) = started as"

section \<open>Notions of the statements\<close>




section \<open>Example inputs\<close>

text \<open>
  A discovery output of two blocks, one with a long discriminator and one with an
  instance name, and a block that has neither.
\<close>

definition twoBlocks :: string where
  "twoBlocks =
     ''[DIS] Discovered commissionable/commissioner node:'' @ [CHR 0x0A] @
     ''[DIS] Long Discriminator: 1234'' @ [CHR 0x0A] @
     ''[DIS] Discovered commissionable/commissioner node:'' @ [CHR 0x0A] @
     ''[DIS] Instance Name: AB'' @ [CHR 0x0A]"

definition droppedBlock :: string where
  "droppedBlock =
     ''[DIS] Discovered commissionable/commissioner node:'' @ [CHR 0x0A] @
     ''[DIS] Hostname: E45F0149AE29'' @ [CHR 0x0A] @
     ''[DIS] Port: 5540'' @ [CHR 0x0A] @
     ''[DIS] Vendor ID: 65521'' @ [CHR 0x0A]"

text \<open>
  A line as long as the scanner's buffer, and an output that has it between two device
  blocks.
\<close>

definition overlongLine :: string where
  "overlongLine = replicate maxScanTokenSize (CHR ''#'')"

definition cutOutput :: string where
  "cutOutput =
     ''[DIS] Discovered commissionable/commissioner node:'' @ [CHR 0x0A] @
     ''[DIS] Long Discriminator: 1234'' @ [CHR 0x0A] @
     overlongLine @ [CHR 0x0A] @
     ''[DIS] Discovered commissionable/commissioner node:'' @ [CHR 0x0A] @
     ''[DIS] Instance Name: AB'' @ [CHR 0x0A]"

text \<open>A numeric parser that knows one literal, and a subscription.\<close>

definition exampleNumeric :: "string \<Rightarrow> float64 option" where
  "exampleNumeric s = (if s = ''3.5'' then Some (Finite 3.5) else None)"


text \<open>An open, empty queue, and an attribute update whose value is NaN.\<close>

definition emptyClient :: Client where
  "emptyClient = \<lparr> send = [], closed = False \<rparr>"

definition nanUpdate :: payload where
  "nanUpdate =
     AttributeUpdate
       \<lparr> AttributeUpdatePayload.NodeID = ''7'', AttributeUpdatePayload.EndpointID = ''1'',
         AttributeUpdatePayload.Cluster = ''TemperatureMeasurement'',
         AttributeUpdatePayload.Attribute = ''MeasuredValue'',
         AttributeUpdatePayload.Value = VFloat NaN \<rparr>"

text \<open>What a handler had done when it returned or panicked.\<close>

definition traceOf :: "action list outcome \<Rightarrow> action list" where
  "traceOf r = (case r of Returns t \<Rightarrow> t | Panics m t \<Rightarrow> t)"

text \<open>
  A world in which the tool exits with status 0 and prints nothing, and in which every
  payload decodes to the zero value of its struct, as the payload \<open>null\<close> does.
\<close>

definition quietRun :: RunResult where
  "quietRun = \<lparr> runErr = None, runStdout = [], runStderr = [] \<rparr>"

definition emptyCommission :: CommissionDevicePayload where
  "emptyCommission =
     \<lparr> CommissionDevicePayload.SetupCode = [], CommissionDevicePayload.Hostname = [],
       CommissionDevicePayload.IPAddress = [], CommissionDevicePayload.Port = [],
       CommissionDevicePayload.MrpIntervalIdle = [],
       CommissionDevicePayload.MrpIntervalActive = [],
       CommissionDevicePayload.MrpActiveThreshold = [],
       CommissionDevicePayload.TCPClientSupported = [],
       CommissionDevicePayload.TCPServerSupported = [], CommissionDevicePayload.ICD = [],
       CommissionDevicePayload.VendorID = [], CommissionDevicePayload.ProductID = [],
       CommissionDevicePayload.LongDiscriminator = [], CommissionDevicePayload.PairingHint = [],
       CommissionDevicePayload.InstanceName = [], CommissionDevicePayload.CommissioningMode = [],
       CommissionDevicePayload.NodeID = [],
       CommissionDevicePayload.SupportsCommissionerGeneratedPasscode = [],
       CommissionDevicePayload.EndpointId = [] \<rparr>"

definition emptyCommand :: DeviceCommandPayload where
  "emptyCommand =
     \<lparr> DeviceCommandPayload.NodeID = [], DeviceCommandPayload.Cluster = [],
       DeviceCommandPayload.Command = [], DeviceCommandPayload.Params = [] \<rparr>"

definition emptySubscribe :: SubscribeAttributePayload where
  "emptySubscribe =
     \<lparr> SubscribeAttributePayload.NodeID = [], SubscribeAttributePayload.EndpointID = [],
       SubscribeAttributePayload.Cluster = [], SubscribeAttributePayload.Attribute = [],
       SubscribeAttributePayload.MinInterval = [], SubscribeAttributePayload.MaxInterval = [] \<rparr>"

definition emptyGetStatus :: DeviceGetStatusPayload where
  "emptyGetStatus = \<lparr> deviceNodeId = [], deviceEndpointId = [] \<rparr>"

definition quietWorld :: world where
  "quietWorld =
     \<lparr> runTool = (\<lambda>argv. quietRun), deadlineExceeded = False, getwdErr = None,
       randSource = 42, toLower = map asciiLower, parseNumeric = exampleNumeric,
       fmtValue = (\<lambda>v. []), intOfFloat = (\<lambda>f. 0),
       unmarshalCommission = (\<lambda>p. Inr emptyCommission),
       unmarshalCommand = (\<lambda>p. Inr emptyCommand),
       unmarshalStatus = (\<lambda>p. Inr emptyGetStatus),
       unmarshalSubscribe = (\<lambda>p. Inr emptySubscribe) \<rparr>"

text \<open>A status request whose payload is an object, and a discovery request.\<close>

definition statusRequest :: ClientMessage where
  "statusRequest =
     \<lparr> ClientMessage.Type = ''get_status'',
       ClientMessage.Payload =
         JObject [(''deviceNodeId'', JString ''7''), (''deviceEndpointId'', JString ''1'')] \<rparr>"

definition discoverRequest :: ClientMessage where
  "discoverRequest = \<lparr> ClientMessage.Type = ''discover_devices'', ClientMessage.Payload = JNull \<rparr>"

text \<open>
  A commissioning request with a setup code and no discriminator, one with a proposed
  node id, and the world that decodes each.
\<close>

definition noDiscriminator :: CommissionDevicePayload where
  "noDiscriminator = emptyCommission\<lparr>CommissionDevicePayload.SetupCode := ''20202021''\<rparr>"

definition commissionRequest :: ClientMessage where
  "commissionRequest =
     \<lparr> ClientMessage.Type = ''commission_device'',
       ClientMessage.Payload =
         JObject [(''setupCode'', JString ''20202021''), (''discriminator'', JString [])] \<rparr>"

definition noDiscriminatorWorld :: world where
  "noDiscriminatorWorld = quietWorld\<lparr>unmarshalCommission := (\<lambda>p. Inr noDiscriminator)\<rparr>"

definition noSetupCode :: CommissionDevicePayload where
  "noSetupCode = emptyCommission\<lparr>CommissionDevicePayload.LongDiscriminator := ''3840''\<rparr>"

definition noSetupCodeWorld :: world where
  "noSetupCodeWorld = quietWorld\<lparr>unmarshalCommission := (\<lambda>p. Inr noSetupCode)\<rparr>"




text \<open>The command \<open>OnOff.On\<close> for node 7, and a run that ends with an error marker.\<close>

definition onCommand :: DeviceCommandPayload where
  "onCommand =
     \<lparr> DeviceCommandPayload.NodeID = ''7'', DeviceCommandPayload.Cluster = ''OnOff'',
       DeviceCommandPayload.Command = ''On'', DeviceCommandPayload.Params = [] \<rparr>"

definition commandRequest :: ClientMessage where
  "commandRequest =
     \<lparr> ClientMessage.Type = ''device_command'',
       ClientMessage.Payload =
         JObject [(''nodeId'', JString ''7''), (''cluster'', JString ''OnOff''),
                  (''command'', JString ''On'')] \<rparr>"

definition onCommandWorld :: world where
  "onCommandWorld = quietWorld\<lparr>unmarshalCommand := (\<lambda>p. Inr onCommand)\<rparr>"

definition markedRun :: RunResult where
  "markedRun = \<lparr> runErr = None, runStdout = [], runStderr = ''Error: timeout'' \<rparr>"

definition markedWorld :: world where
  "markedWorld = onCommandWorld\<lparr>runTool := (\<lambda>argv. markedRun)\<rparr>"

section \<open>Properties of the discovery parser\<close>

lemma processLine_start: "isBlockStart l \<Longrightarrow> processLine st l = (flush st, Some emptyDevice)"
  by (auto simp: processLine_def isBlockStart_def disContent_def Let_def split: option.splits)

lemma processLine_field:
  "\<not> isBlockStart l \<Longrightarrow> processLine (devs, Some d) l = (devs, Some (fieldStep d l))"
  by (auto simp: processLine_def isBlockStart_def fieldStep_def disContent_def Let_def
           split: option.splits)

lemma processLine_idle: "\<not> isBlockStart l \<Longrightarrow> processLine (devs, None) l = (devs, None)"
  by (auto simp: processLine_def isBlockStart_def disContent_def Let_def split: option.splits)

lemma flush_some: "flush (devs, Some d) = devs @ emit d"
  by (simp add: flush_def emit_def)

lemma flush_none: "flush (devs, None) = devs"
  by (simp add: flush_def)

lemma run_in_block:
  "flush (foldl processLine (devs, Some d) ls) =
     devs @ emit (foldl fieldStep d (takeWhile (\<lambda>x. \<not> isBlockStart x) ls))
          @ concat (map (\<lambda>b. emit (blockRecord b)) (blocksOf ls))"
proof (induction ls arbitrary: devs d)
  case Nil
  show ?case by (simp add: flush_some)
next
  case (Cons l ls)
  show ?case
  proof (cases "isBlockStart l")
    case True
    have "flush (foldl processLine (devs, Some d) (l # ls)) =
            flush (foldl processLine (devs @ emit d, Some emptyDevice) ls)"
      using True by (simp add: processLine_start flush_some)
    also have "\<dots> = (devs @ emit d)
                 @ emit (foldl fieldStep emptyDevice (takeWhile (\<lambda>x. \<not> isBlockStart x) ls))
                 @ concat (map (\<lambda>b. emit (blockRecord b)) (blocksOf ls))"
      by (rule Cons.IH)
    finally show ?thesis using True by (simp add: blockRecord_def)
  next
    case False
    have "flush (foldl processLine (devs, Some d) (l # ls)) =
            flush (foldl processLine (devs, Some (fieldStep d l)) ls)"
      using False by (simp add: processLine_field)
    also have "\<dots> = devs
                 @ emit (foldl fieldStep (fieldStep d l) (takeWhile (\<lambda>x. \<not> isBlockStart x) ls))
                 @ concat (map (\<lambda>b. emit (blockRecord b)) (blocksOf ls))"
      by (rule Cons.IH)
    finally show ?thesis using False by simp
  qed
qed

lemma run_idle:
  "flush (foldl processLine (devs, None) ls) =
     devs @ concat (map (\<lambda>b. emit (blockRecord b)) (blocksOf ls))"
proof (induction ls)
  case Nil
  show ?case by (simp add: flush_none)
next
  case (Cons l ls)
  show ?case
  proof (cases "isBlockStart l")
    case True
    then show ?thesis
      by (simp add: processLine_start flush_none run_in_block blockRecord_def)
  next
    case False
    with Cons show ?thesis by (simp add: processLine_idle)
  qed
qed

text \<open>The loop, block by block: each block yields its finalized record, or nothing.\<close>

lemma parseLines_blocks:
  "parseLines ls = concat (map (\<lambda>b. emit (blockRecord b)) (blocksOf ls))"
  using run_idle [of "[]" ls] by (simp add: parseLines_def)

lemma onKey_cases:
  "(\<And>v. v \<noteq> [] \<Longrightarrow> P (hit v)) \<Longrightarrow> P miss \<Longrightarrow> P (onKey c key hit miss)"
  by (simp add: onKey_def)

lemma parseField_ID: "ID (parseField c d) = ID d"
  unfolding parseField_def
  by ((rule onKey_cases [where P = "\<lambda>x. ID x = ID d"], simp split: option.splits)+, simp)

lemma parseField_Discriminator:
  "Discriminator d \<noteq> [] \<Longrightarrow> Discriminator (parseField c d) \<noteq> []"
  unfolding parseField_def
  by ((rule onKey_cases [where P = "\<lambda>x. Discriminator x \<noteq> []"],
       simp split: option.splits)+, simp)

lemma parseField_InstanceName:
  "InstanceName d \<noteq> [] \<Longrightarrow> InstanceName (parseField c d) \<noteq> []"
  unfolding parseField_def
  by ((rule onKey_cases [where P = "\<lambda>x. InstanceName x \<noteq> []"],
       simp split: option.splits)+, simp)

lemma parseField_flushable: "flushable d \<Longrightarrow> flushable (parseField c d)"
  using parseField_Discriminator parseField_InstanceName by (auto simp: flushable_def)

lemma firstKey_discriminator:
  assumes "firstKey c = Some ''Long Discriminator:''"
  shows "Discriminator (parseField c d) \<noteq> []"
proof -
  from assms have
    "extractValueAfterKey c ''Hostname:'' = []"
    "extractValueAfterKey c ''IP Address #1:'' = []"
    "extractValueAfterKey c ''Port:'' = []"
    "extractValueAfterKey c ''Mrp Interval idle:'' = []"
    "extractValueAfterKey c ''Mrp Interval active:'' = []"
    "extractValueAfterKey c ''Mrp Active Threshold:'' = []"
    "extractValueAfterKey c ''TCP Client Supported:'' = []"
    "extractValueAfterKey c ''TCP Server Supported:'' = []"
    "extractValueAfterKey c ''ICD:'' = []"
    "extractValueAfterKey c ''Vendor ID:'' = []"
    "extractValueAfterKey c ''Product ID:'' = []"
    "extractValueAfterKey c ''Long Discriminator:'' \<noteq> []"
    by (simp_all add: firstKey_def keyChain_def split: if_splits)
  then show ?thesis by (simp add: parseField_def onKey_def)
qed

lemma firstKey_instance:
  assumes "firstKey c = Some ''Instance Name:''"
  shows "InstanceName (parseField c d) \<noteq> []"
proof -
  from assms have
    "extractValueAfterKey c ''Hostname:'' = []"
    "extractValueAfterKey c ''IP Address #1:'' = []"
    "extractValueAfterKey c ''Port:'' = []"
    "extractValueAfterKey c ''Mrp Interval idle:'' = []"
    "extractValueAfterKey c ''Mrp Interval active:'' = []"
    "extractValueAfterKey c ''Mrp Active Threshold:'' = []"
    "extractValueAfterKey c ''TCP Client Supported:'' = []"
    "extractValueAfterKey c ''TCP Server Supported:'' = []"
    "extractValueAfterKey c ''ICD:'' = []"
    "extractValueAfterKey c ''Vendor ID:'' = []"
    "extractValueAfterKey c ''Product ID:'' = []"
    "extractValueAfterKey c ''Long Discriminator:'' = []"
    "extractValueAfterKey c ''Pairing Hint:'' = []"
    "extractValueAfterKey c ''Instance Name:'' \<noteq> []"
    by (simp_all add: firstKey_def keyChain_def split: if_splits)
  then show ?thesis by (simp add: parseField_def onKey_def)
qed

lemma identityLine_flushable: "identityLine l \<Longrightarrow> flushable (fieldStep d l)"
  by (auto simp: identityLine_def fieldStep_def flushable_def
           dest: firstKey_discriminator firstKey_instance split: option.splits)

lemma fieldStep_flushable: "flushable d \<Longrightarrow> flushable (fieldStep d l)"
  by (simp add: fieldStep_def parseField_flushable split: option.splits)

lemma fieldStep_ID: "ID (fieldStep d l) = ID d"
  by (simp add: fieldStep_def parseField_ID split: option.splits)

lemma foldl_fieldStep_ID: "ID (foldl fieldStep d b) = ID d"
  by (induction b arbitrary: d) (simp_all add: fieldStep_ID)

lemma foldl_fieldStep_flushable: "flushable d \<Longrightarrow> flushable (foldl fieldStep d b)"
  by (induction b arbitrary: d) (simp_all add: fieldStep_flushable)

lemma foldl_fieldStep_identity:
  "\<exists>l \<in> set b. identityLine l \<Longrightarrow> flushable (foldl fieldStep d b)"
proof (induction b arbitrary: d)
  case Nil
  then show ?case by simp
next
  case (Cons l b)
  show ?case
  proof (cases "identityLine l")
    case True
    then have "flushable (fieldStep d l)" by (rule identityLine_flushable)
    then show ?thesis by (simp add: foldl_fieldStep_flushable)
  next
    case False
    with Cons.prems have "\<exists>l \<in> set b. identityLine l" by simp
    then show ?thesis by (simp add: Cons.IH)
  qed
qed

lemma wellFormedBlock_flushable: "wellFormedBlock b \<Longrightarrow> flushable (blockRecord b)"
  by (simp add: wellFormedBlock_def blockRecord_def foldl_fieldStep_identity)

lemma blockRecord_ID: "ID (blockRecord b) = []"
  by (simp add: blockRecord_def foldl_fieldStep_ID emptyDevice_def)

lemma finalizeDevice_ID:
  "ID d = [] \<Longrightarrow>
   ID (finalizeDevice d) =
     (if InstanceName d \<noteq> [] then ''dnsd_instance_'' @ InstanceName d
      else ''dnsd_vid'' @ VendorID d @ ''_pid'' @ ProductID d @ ''_disc'' @ Discriminator d)"
  by (simp add: finalizeDevice_def defaultID_def defaultName_def)

lemma finalizeDevice_keeps:
  "InstanceName (finalizeDevice d) = InstanceName d"
  "Discriminator (finalizeDevice d) = Discriminator d"
  "VendorID (finalizeDevice d) = VendorID d"
  "ProductID (finalizeDevice d) = ProductID d"
  by (simp_all add: finalizeDevice_def defaultID_def defaultName_def)

lemma length_blocksOf: "length (blocksOf ls) = length (filter isBlockStart ls)"
  by (induction ls) simp_all

lemma parseLines_members:
  "d \<in> set (parseLines ls) \<Longrightarrow>
     \<exists>b \<in> set (blocksOf ls). flushable (blockRecord b) \<and> d = finalizeDevice (blockRecord b)"
  by (auto simp: parseLines_blocks emit_def split: if_splits)

lemma emit_all_flushable:
  "\<forall>b \<in> set bs. flushable (blockRecord b) \<Longrightarrow>
     concat (map (\<lambda>b. emit (blockRecord b)) bs) = map (\<lambda>b. finalizeDevice (blockRecord b)) bs"
  by (induction bs) (simp_all add: emit_def)

lemma takeWhile_before:
  "\<not> P m \<Longrightarrow> takeWhile P (pre @ m # xs) = takeWhile P pre"
  by (induction pre) simp_all

lemma blocksOf_append_start:
  "isBlockStart m \<Longrightarrow> blocksOf (pre @ m # xs) = blocksOf pre @ blocksOf (m # xs)"
proof (induction pre)
  case Nil
  show ?case by simp
next
  case (Cons l pre)
  have "takeWhile (\<lambda>x. \<not> isBlockStart x) (pre @ m # xs) = takeWhile (\<lambda>x. \<not> isBlockStart x) pre"
    using Cons.prems by (simp add: takeWhile_before)
  with Cons show ?case by simp
qed

lemma blocksOf_skip_fields:
  "\<forall>l \<in> set body. \<not> isBlockStart l \<Longrightarrow> blocksOf (body @ rest) = blocksOf rest"
  by (induction body) simp_all

lemma takeWhile_block:
  assumes "\<forall>l \<in> set body. \<not> isBlockStart l" and "rest = [] \<or> isBlockStart (hd rest)"
  shows "takeWhile (\<lambda>x. \<not> isBlockStart x) (body @ rest) = body"
proof -
  have "takeWhile (\<lambda>x. \<not> isBlockStart x) rest = []"
    using assms(2) by (cases rest) auto
  with assms(1) show ?thesis by (simp add: takeWhile_append2)
qed

lemmas parser_eval =
  parseDiscoveryOutput_def parseLines_def processLine_def flush_def flushable_def
  finalizeDevice_def defaultID_def defaultName_def disMarker_def blockMarker_def
  parseField_def onKey_def extractValueAfterKey_def strTrimSpace_def
  trimLeft_stop trimLeft_step trimRight_stop trimRight_step spaceLen_def spaceLenEnd_def
  asciiSpace_def unicodeSpaces_def strHasSuffix_def emptyDevice_def atoi_def parseInt_def
  parseUint_def natOfDigits_def digitVal_def isDigit_def showNat_digit showNat_more
  commissioningType_def matchAnsi_def isLetter_def scanLines_def maxScanTokenSize_def
  dropCR_def disContent_def isBlockStart_def fieldStep_def blockRecord_def
  identityLine_def wellFormedBlock_def firstKey_def keyChain_def

lemma onKey_split:
  "(extractValueAfterKey c key \<noteq> [] \<Longrightarrow> P (hit (extractValueAfterKey c key))) \<Longrightarrow>
   (extractValueAfterKey c key = [] \<Longrightarrow> P miss) \<Longrightarrow> P (onKey c key hit miss)"
  by (simp add: onKey_def)

lemma parseField_Discriminator_kept:
  assumes "firstKey c \<noteq> Some ''Long Discriminator:''"
  shows "Discriminator (parseField c d) = Discriminator d"
  apply (insert assms)
  apply (unfold parseField_def)
  apply ((rule onKey_split [where P = "\<lambda>x. Discriminator x = Discriminator d"],
          simp add: firstKey_def keyChain_def split: option.splits)+, simp)
  done

lemma parseField_InstanceName_kept:
  assumes "firstKey c \<noteq> Some ''Instance Name:''"
  shows "InstanceName (parseField c d) = InstanceName d"
  apply (insert assms)
  apply (unfold parseField_def)
  apply ((rule onKey_split [where P = "\<lambda>x. InstanceName x = InstanceName d"],
          simp add: firstKey_def keyChain_def split: option.splits)+, simp)
  done

lemma parseField_flushable_iff:
  "flushable (parseField c d) \<longleftrightarrow>
     flushable d \<or> firstKey c = Some ''Long Discriminator:'' \<or> firstKey c = Some ''Instance Name:''"
proof (cases "firstKey c = Some ''Long Discriminator:'' \<or> firstKey c = Some ''Instance Name:''")
  case True
  then show ?thesis
    using firstKey_discriminator [of c d] firstKey_instance [of c d]
    by (auto simp: flushable_def)
next
  case False
  then show ?thesis
    by (simp add: flushable_def parseField_Discriminator_kept parseField_InstanceName_kept)
qed

lemma fieldStep_flushable_iff:
  "\<not> isBlockStart l \<Longrightarrow> flushable (fieldStep d l) \<longleftrightarrow> flushable d \<or> identityLine l"
  by (cases "disContent l") (simp_all add: fieldStep_def identityLine_def parseField_flushable_iff)

lemma foldl_fieldStep_flushable_iff:
  "\<forall>l \<in> set b. \<not> isBlockStart l \<Longrightarrow>
     flushable (foldl fieldStep d b) \<longleftrightarrow> flushable d \<or> (\<exists>l \<in> set b. identityLine l)"
proof (induction b arbitrary: d)
  case Nil
  show ?case by simp
next
  case (Cons l b)
  then show ?case by (auto simp: fieldStep_flushable_iff)
qed

lemma blocksOf_no_start: "b \<in> set (blocksOf ls) \<Longrightarrow> \<forall>l \<in> set b. \<not> isBlockStart l"
  by (induction ls) (auto split: if_splits dest: set_takeWhileD)

lemma block_flushable_iff:
  "b \<in> set (blocksOf ls) \<Longrightarrow> flushable (blockRecord b) \<longleftrightarrow> wellFormedBlock b"
proof -
  assume "b \<in> set (blocksOf ls)"
  then have "\<forall>l \<in> set b. \<not> isBlockStart l" by (rule blocksOf_no_start)
  moreover have "\<not> flushable emptyDevice" by (simp add: flushable_def emptyDevice_def)
  ultimately show ?thesis
    by (simp add: blockRecord_def wellFormedBlock_def foldl_fieldStep_flushable_iff)
qed

lemma emit_blocks:
  "\<forall>b \<in> set bs. flushable (blockRecord b) \<longleftrightarrow> wellFormedBlock b \<Longrightarrow>
     concat (map (\<lambda>b. emit (blockRecord b)) bs) =
       map (\<lambda>b. finalizeDevice (blockRecord b)) (filter wellFormedBlock bs)"
  by (induction bs) (simp_all add: emit_def)

lemma parseLines_wellFormed:
  "parseLines ls = map (\<lambda>b. finalizeDevice (blockRecord b)) (filter wellFormedBlock (blocksOf ls))"
  unfolding parseLines_blocks
  by (rule emit_blocks) (simp add: block_flushable_iff)

subsection \<open>C1: one record for each well-formed block\<close>

lemma scanLines_short:
  "\<forall>l \<in> set (splitLines [] output). length l < maxScanTokenSize \<Longrightarrow>
   scanLines output = textLines output"
  by (simp add: scanLines_def textLines_def takeWhile_eq_all_conv [THEN iffD2])

text \<open>
  C1. The scanner delivers a line only when it is shorter than its buffer of 65536 bytes;
  the statement is about the output texts all of whose lines are. The lines of such a
  text are \<open>textLines\<close>, and its blocks are the lines after each line that starts a block,
  up to the next such line. A block is well formed when one of its lines sets the long
  discriminator or the instance name, that is, when on that line the first key of the
  chain with a value is one of these two. \<open>parseDiscoveryOutput\<close> returns exactly the
  finalized records of the well-formed blocks, in their order: as many records as there
  are well-formed blocks, which is the number of block starts when every block is well
  formed. For every output text, whatever its lines, each returned record's \<open>ID\<close> is not
  empty: it is \<open>dnsd_instance_\<close> and the instance name when an instance name was parsed,
  and the composite of vendor id, product id and discriminator otherwise.
\<close>

theorem parseDiscoveryOutput_one_record_per_block:
  "((\<forall>l \<in> set (splitLines [] output). length l < maxScanTokenSize) \<longrightarrow>
      parseDiscoveryOutput output =
        map (\<lambda>b. finalizeDevice (blockRecord b))
          (filter wellFormedBlock (blocksOf (textLines output)))
      \<and> length (parseDiscoveryOutput output) =
          length (filter wellFormedBlock (blocksOf (textLines output)))
      \<and> ((\<forall>b \<in> set (blocksOf (textLines output)). wellFormedBlock b) \<longrightarrow>
           length (parseDiscoveryOutput output) =
             length (filter isBlockStart (textLines output))))
   \<and> (\<forall>d \<in> set (parseDiscoveryOutput output).
         ID d \<noteq> [] \<and>
         ID d = (if InstanceName d \<noteq> [] then ''dnsd_instance_'' @ InstanceName d
                 else ''dnsd_vid'' @ VendorID d @ ''_pid'' @ ProductID d
                      @ ''_disc'' @ Discriminator d))"
proof -
  let ?bs = "blocksOf (textLines output)"
  have res: "parseDiscoveryOutput output =
               map (\<lambda>b. finalizeDevice (blockRecord b)) (filter wellFormedBlock ?bs)"
    if "\<forall>l \<in> set (splitLines [] output). length l < maxScanTokenSize"
    using scanLines_short [OF that] by (simp add: parseDiscoveryOutput_def parseLines_wellFormed)
  have len: "length (parseDiscoveryOutput output) = length (filter wellFormedBlock ?bs)"
    if "\<forall>l \<in> set (splitLines [] output). length l < maxScanTokenSize"
    using res [OF that] by simp
  have full: "length (parseDiscoveryOutput output) = length (filter isBlockStart (textLines output))"
    if "\<forall>l \<in> set (splitLines [] output). length l < maxScanTokenSize"
      and "\<forall>b \<in> set ?bs. wellFormedBlock b"
  proof -
    from that(2) have "filter wellFormedBlock ?bs = ?bs" by simp
    then show ?thesis using len [OF that(1)] by (simp add: length_blocksOf)
  qed
  have ids: "ID d \<noteq> [] \<and>
             ID d = (if InstanceName d \<noteq> [] then ''dnsd_instance_'' @ InstanceName d
                     else ''dnsd_vid'' @ VendorID d @ ''_pid'' @ ProductID d
                          @ ''_disc'' @ Discriminator d)"
    if "d \<in> set (parseDiscoveryOutput output)" for d
  proof -
    from that obtain b where d: "d = finalizeDevice (blockRecord b)"
      by (auto simp: parseDiscoveryOutput_def parseLines_wellFormed)
    have "ID d = (if InstanceName (blockRecord b) \<noteq> []
                  then ''dnsd_instance_'' @ InstanceName (blockRecord b)
                  else ''dnsd_vid'' @ VendorID (blockRecord b) @ ''_pid''
                       @ ProductID (blockRecord b) @ ''_disc'' @ Discriminator (blockRecord b))"
      unfolding d by (rule finalizeDevice_ID) (rule blockRecord_ID)
    then show ?thesis by (simp add: d finalizeDevice_keeps)
  qed
  from res len full ids show ?thesis by blast
qed

theorem parseDiscoveryOutput_one_record_per_block_witness:
  "list_all (\<lambda>l. length l < maxScanTokenSize) (splitLines [] (twoBlocks @ droppedBlock))
   \<and> map wellFormedBlock (blocksOf (textLines (twoBlocks @ droppedBlock))) = [True, True, False]
   \<and> length (parseDiscoveryOutput (twoBlocks @ droppedBlock)) = 2
   \<and> list_all (\<lambda>l. length l < maxScanTokenSize) (splitLines [] twoBlocks)
   \<and> list_all wellFormedBlock (blocksOf (textLines twoBlocks))
   \<and> length (filter isBlockStart (textLines twoBlocks)) = 2
   \<and> length (parseDiscoveryOutput twoBlocks) = 2
   \<and> map ID (parseDiscoveryOutput twoBlocks) = [''dnsd_vid_pid_disc1234'', ''dnsd_instance_AB'']"
proof -
  have short3: "list_all (\<lambda>l. length l < maxScanTokenSize)
                  (splitLines [] (twoBlocks @ droppedBlock))"
    by (simp add: twoBlocks_def droppedBlock_def maxScanTokenSize_def)
  have short2: "list_all (\<lambda>l. length l < maxScanTokenSize) (splitLines [] twoBlocks)"
    by (simp add: twoBlocks_def maxScanTokenSize_def)
  have wf3: "map wellFormedBlock (blocksOf (textLines (twoBlocks @ droppedBlock)))
               = [True, True, False]"
    by (simp add: twoBlocks_def droppedBlock_def textLines_def parser_eval)
  then have sel: "filter wellFormedBlock (blocksOf (textLines (twoBlocks @ droppedBlock)))
               = take 2 (blocksOf (textLines (twoBlocks @ droppedBlock)))
             \<and> length (blocksOf (textLines (twoBlocks @ droppedBlock))) = 3"
    by (auto simp: map_eq_Cons_conv)
  from parseDiscoveryOutput_one_record_per_block [of "twoBlocks @ droppedBlock"] short3 sel
  have n3: "length (parseDiscoveryOutput (twoBlocks @ droppedBlock)) = 2"
    by (simp add: list_all_iff)
  have wf2: "list_all wellFormedBlock (blocksOf (textLines twoBlocks))"
    by (simp add: twoBlocks_def textLines_def parser_eval)
  have n: "length (filter isBlockStart (textLines twoBlocks)) = 2"
    by (simp add: twoBlocks_def textLines_def parser_eval)
  from parseDiscoveryOutput_one_record_per_block [of twoBlocks] short2 wf2 n
  have n2: "length (parseDiscoveryOutput twoBlocks) = 2"
    by (simp add: list_all_iff)
  have ids: "map ID (parseDiscoveryOutput twoBlocks) = [''dnsd_vid_pid_disc1234'', ''dnsd_instance_AB'']"
    by (simp add: twoBlocks_def parser_eval)
  from short3 wf3 n3 short2 wf2 n n2 ids show ?thesis by simp
qed

lemma splitLines_line:
  "CHR 0x0A \<notin> set l \<Longrightarrow> splitLines acc (l @ CHR 0x0A # rest) = (rev acc @ l) # splitLines [] rest"
  by (induction l arbitrary: acc) auto

lemma matchAnsi_plain: "c \<noteq> CHR 0x1B \<Longrightarrow> matchAnsi (c # cs) = None"
  by (cases cs) (simp_all add: matchAnsi_def)

lemma stripAnsi_plain: "CHR 0x1B \<notin> set l \<Longrightarrow> stripAnsi l = l"
  by (induction l) (auto simp: matchAnsi_plain)

lemma strIndex_absent: "p \<notin> set l \<Longrightarrow> strIndex l (p # ps) = None"
  by (induction l) auto

lemma maxScanTokenSize_pos: "0 < maxScanTokenSize"
  by (simp add: maxScanTokenSize_def)

lemma overlongLine_chars: "c \<noteq> CHR ''#'' \<Longrightarrow> c \<notin> set overlongLine"
  by (simp add: overlongLine_def)

lemma overlongLine_length: "length overlongLine = maxScanTokenSize"
  by (simp add: overlongLine_def)

lemma overlongLine_dropCR: "dropCR overlongLine = overlongLine"
  using maxScanTokenSize_pos by (simp add: dropCR_def overlongLine_def)

lemma overlongLine_content: "disContent overlongLine = None"
  by (simp add: disContent_def disMarker_def stripAnsi_plain strIndex_absent overlongLine_chars)

lemma cutOutput_lines:
  "splitLines [] cutOutput =
     [''[DIS] Discovered commissionable/commissioner node:'', ''[DIS] Long Discriminator: 1234'',
      overlongLine,
      ''[DIS] Discovered commissionable/commissioner node:'', ''[DIS] Instance Name: AB'']"
  by (simp add: cutOutput_def splitLines_line overlongLine_chars)

text \<open>
  Without the bound on the lines the count fails. \<open>cutOutput\<close> holds two well-formed
  blocks, and between them a line of 65536 bytes: the scan ends at that line, the loop
  never sees the second block, and one record is returned.
\<close>

theorem parseDiscoveryOutput_stops_at_long_line:
  "map wellFormedBlock (blocksOf (textLines cutOutput)) = [True, True]
   \<and> length (filter isBlockStart (textLines cutOutput)) = 2
   \<and> map ID (parseDiscoveryOutput cutOutput) = [''dnsd_vid_pid_disc1234'']"
proof -
  let ?m = "''[DIS] Discovered commissionable/commissioner node:''"
  let ?d = "''[DIS] Long Discriminator: 1234''"
  let ?i = "''[DIS] Instance Name: AB''"
  have plain: "map dropCR [?m, ?d, ?i] = [?m, ?d, ?i]"
    by (simp add: dropCR_def)
  have lines: "textLines cutOutput = [?m, ?d, overlongLine, ?m, ?i]"
    using plain by (simp add: textLines_def cutOutput_lines overlongLine_dropCR)
  have "takeWhile (\<lambda>l. length l < maxScanTokenSize) (splitLines [] cutOutput) = [?m, ?d]"
    unfolding cutOutput_lines by (simp add: overlongLine_length) (simp add: maxScanTokenSize_def)
  then have scanned: "scanLines cutOutput = [?m, ?d]"
    using plain by (simp add: scanLines_def)
  have m: "isBlockStart ?m" by (simp add: parser_eval)
  have d: "\<not> isBlockStart ?d \<and> identityLine ?d" by (simp add: parser_eval)
  have i: "\<not> isBlockStart ?i \<and> identityLine ?i" by (simp add: parser_eval)
  have l: "\<not> isBlockStart overlongLine"
    by (simp add: isBlockStart_def overlongLine_content)
  have wf: "map wellFormedBlock (blocksOf (textLines cutOutput)) = [True, True]"
    unfolding lines using m d i l by (simp add: wellFormedBlock_def)
  have n: "length (filter isBlockStart (textLines cutOutput)) = 2"
    unfolding lines using m d i l by simp
  have ids: "map ID (parseLines [?m, ?d]) = [''dnsd_vid_pid_disc1234'']"
    by (simp add: parser_eval)
  from wf n ids show ?thesis by (simp add: parseDiscoveryOutput_def scanned)
qed

subsection \<open>C8: a block without discriminator and instance name leaves no record\<close>

text \<open>
  C8. Take any discovery output whose lines, as scanned, are \<open>pre\<close>, a block start \<open>m\<close>,
  the lines \<open>body\<close> of that block, and \<open>rest\<close>, which is empty (the block ends the input)
  or begins with the next block start. When the record the block's lines build has an
  empty discriminator and an empty instance name, whatever else they set, the result is
  the records of \<open>pre\<close> followed by the records of \<open>rest\<close>: the block contributes none.
  Moreover every record that is returned has a discriminator or an instance name.
\<close>

theorem parseDiscoveryOutput_drops_incomplete_block:
  assumes "scanLines output = pre @ m # body @ rest"
    and "isBlockStart m"
    and "\<forall>l \<in> set body. \<not> isBlockStart l"
    and "rest = [] \<or> isBlockStart (hd rest)"
    and "Discriminator (blockRecord body) = []"
    and "InstanceName (blockRecord body) = []"
  shows "parseDiscoveryOutput output = parseLines pre @ parseLines rest
         \<and> (\<forall>d \<in> set (parseDiscoveryOutput output).
               Discriminator d \<noteq> [] \<or> InstanceName d \<noteq> [])"
proof -
  have "blocksOf (pre @ m # body @ rest) = blocksOf pre @ blocksOf (m # body @ rest)"
    using assms(2) by (rule blocksOf_append_start)
  also have "blocksOf (m # body @ rest) = body # blocksOf rest"
    using assms(2) takeWhile_block [OF assms(3) assms(4)] blocksOf_skip_fields [OF assms(3)]
    by simp
  finally have bs: "blocksOf (scanLines output) = blocksOf pre @ body # blocksOf rest"
    by (simp add: assms(1))
  have "emit (blockRecord body) = []"
    using assms(5) assms(6) by (simp add: emit_def flushable_def)
  then have split: "parseDiscoveryOutput output = parseLines pre @ parseLines rest"
    by (simp add: parseDiscoveryOutput_def parseLines_blocks bs)
  have complete: "Discriminator d \<noteq> [] \<or> InstanceName d \<noteq> []"
    if "d \<in> set (parseDiscoveryOutput output)" for d
  proof -
    from that obtain b where "flushable (blockRecord b)" and "d = finalizeDevice (blockRecord b)"
      unfolding parseDiscoveryOutput_def by (blast dest: parseLines_members)
    then show ?thesis by (simp add: flushable_def finalizeDevice_keeps)
  qed
  from split complete show ?thesis by blast
qed

theorem parseDiscoveryOutput_drops_incomplete_block_witness:
  "scanLines (twoBlocks @ droppedBlock) =
     scanLines twoBlocks @ ''[DIS] Discovered commissionable/commissioner node:''
       # [''[DIS] Hostname: E45F0149AE29'', ''[DIS] Port: 5540'', ''[DIS] Vendor ID: 65521''] @ []
   \<and> Name (blockRecord [''[DIS] Hostname: E45F0149AE29'', ''[DIS] Port: 5540'',
                          ''[DIS] Vendor ID: 65521'']) = ''E45F0149AE29''
   \<and> parseDiscoveryOutput (twoBlocks @ droppedBlock) = parseDiscoveryOutput twoBlocks"
proof -
  let ?m = "''[DIS] Discovered commissionable/commissioner node:''"
  let ?body = "[''[DIS] Hostname: E45F0149AE29'', ''[DIS] Port: 5540'', ''[DIS] Vendor ID: 65521'']"
  have lines: "scanLines (twoBlocks @ droppedBlock) = scanLines twoBlocks @ ?m # ?body @ []"
    by (simp add: twoBlocks_def droppedBlock_def scanLines_def maxScanTokenSize_def dropCR_def)
  have m: "isBlockStart ?m" by (simp add: parser_eval)
  have body: "\<forall>l \<in> set ?body. \<not> isBlockStart l" by (simp add: parser_eval)
  have rest: "([]::string list) = [] \<or> isBlockStart (hd [])" by simp
  have name: "Name (blockRecord ?body) = ''E45F0149AE29''" by (simp add: parser_eval)
  have disc: "Discriminator (blockRecord ?body) = []" by (simp add: parser_eval)
  have inst: "InstanceName (blockRecord ?body) = []" by (simp add: parser_eval)
  have "parseLines [] = []" by (simp add: parseLines_def flush_def)
  with parseDiscoveryOutput_drops_incomplete_block [OF lines m body rest disc inst]
  have "parseDiscoveryOutput (twoBlocks @ droppedBlock) = parseDiscoveryOutput twoBlocks"
    by (simp add: parseDiscoveryOutput_def)
  with lines name show ?thesis by simp
qed

section \<open>Properties of the attribute value parsers\<close>











subsection \<open>C6: the one-shot read\<close>




section \<open>Properties of the outbound queue\<close>

text \<open>
  C9, as the code has it. On a queue that the hub has not closed, \<open>notifyClientLog\<close>
  returns with the message appended when fewer than 256 are waiting, and returns with the
  queue as it was when it is full. \<open>notifyClient\<close> does the same for an event that
  \<open>json.Marshal\<close> encodes; an event it cannot encode is logged and dropped, whether the
  queue is full or not. No call waits: each returns at once.
\<close>

theorem notify_open_queue:
  assumes "\<not> closed c"
  shows "notifyClientLog c logType data =
           Returns (if length (send c) < sendCapacity
                    then c\<lparr>send := send c
                             @ [\<lparr> ServerMessage.Type = logType,
                                  ServerMessage.Payload = LogText data \<rparr>]\<rparr>
                    else c)
         \<and> notifyClient c msgType p =
             Returns (if marshals \<lparr> ServerMessage.Type = msgType, ServerMessage.Payload = p \<rparr>
                         \<and> length (send c) < sendCapacity
                      then c\<lparr>send := send c
                               @ [\<lparr> ServerMessage.Type = msgType, ServerMessage.Payload = p \<rparr>]\<rparr>
                      else c)"
  using assms
  by (simp add: notifyClientLog_def notifyClient_def trySend_def marshals_def Let_def)

theorem notify_open_queue_witness:
  "\<not> closed emptyClient
   \<and> notifyClientLog emptyClient ''discovery_log'' ''x''
       = Returns \<lparr> send = [\<lparr> ServerMessage.Type = ''discovery_log'',
                              ServerMessage.Payload = LogText ''x'' \<rparr>],
                   closed = False \<rparr>
   \<and> notifyClient (emptyClient\<lparr>send := replicate 256 \<lparr> ServerMessage.Type = ''error'',
                                    ServerMessage.Payload = ErrorMessage ''x'' \<rparr>\<rparr>)
         ''error'' (ErrorMessage ''y'')
       = Returns (emptyClient\<lparr>send := replicate 256 \<lparr> ServerMessage.Type = ''error'',
                                    ServerMessage.Payload = ErrorMessage ''x'' \<rparr>\<rparr>)"
proof -
  let ?full = "emptyClient\<lparr>send := replicate 256 \<lparr> ServerMessage.Type = ''error'',
                                    ServerMessage.Payload = ErrorMessage ''x'' \<rparr>\<rparr>"
  have o1: "\<not> closed emptyClient" by (simp add: emptyClient_def)
  have o2: "\<not> closed ?full" by (simp add: emptyClient_def)
  from notify_open_queue [OF o1, of "''discovery_log''" "''x''"]
  have a: "notifyClientLog emptyClient ''discovery_log'' ''x''
             = Returns \<lparr> send = [\<lparr> ServerMessage.Type = ''discovery_log'',
                                    ServerMessage.Payload = LogText ''x'' \<rparr>],
                         closed = False \<rparr>"
    by (simp add: emptyClient_def sendCapacity_def)
  from notify_open_queue [OF o2, where msgType = "''error''" and p = "ErrorMessage ''y''"]
  have b: "notifyClient ?full ''error'' (ErrorMessage ''y'') = Returns ?full"
    by (simp add: sendCapacity_def)
  from o1 a b show ?thesis by simp
qed

text \<open>
  The claim as written fails on an event that cannot be encoded: the queue is empty, and
  the update with the value NaN is not appended.
\<close>

theorem notifyClient_drops_unencodable:
  "send emptyClient = [] \<and> notifyClient emptyClient ''attribute_update'' nanUpdate = Returns emptyClient"
  by (simp add: notifyClient_def marshals_def nanUpdate_def emptyClient_def)

lemma notify_closed_queue:
  "closed c \<Longrightarrow> notifyClientLog c logType data = Panics ''send on closed channel'' c"
  by (simp add: notifyClientLog_def trySend_def marshals_def)

section \<open>Properties of the dispatcher\<close>

subsection \<open>C2: \<open>get_status\<close> on output without a data line\<close>

text \<open>
  C2 fails on the code. The request is a \<open>get_status\<close> with an object as payload; the
  tool exits with status 0 and its stdout holds no line \<open>Data = true\<close> or \<open>Data = false\<close>.
  The guard before \<open>match[1]\<close> returns only when the run failed as well, so the handler
  indexes the nil slice and its goroutine panics.
\<close>

theorem get_status_panics_without_data_line:
  "handleClientMessage quietWorld statusRequest =
     Panics ''runtime error: index out of range [1] with length 0''
       [Ran [''onoff'', ''read'', ''on-off'', [], []]]"
  by (simp add: handleClientMessage_def handleGetStatus_def statusRequest_def quietWorld_def
        quietRun_def emptyGetStatus_def findOnOff_def Let_def)

lemma get_status_panics:
  assumes "unmarshalStatus w (JObject members) = Inr sp"
    and "runErr (runTool w [''onoff'', ''read'', ''on-off'', deviceNodeId sp, deviceEndpointId sp]) = None"
    and "findOnOff (runStdout (runTool w [''onoff'', ''read'', ''on-off'', deviceNodeId sp,
                                          deviceEndpointId sp])) = None"
  shows "handleGetStatus w (JObject members) =
           Panics ''runtime error: index out of range [1] with length 0''
             [Ran [''onoff'', ''read'', ''on-off'', deviceNodeId sp, deviceEndpointId sp]]"
  using assms by (simp add: handleGetStatus_def Let_def)

subsection \<open>C3: \<open>discover_devices\<close> after a normal exit\<close>

lemma parseDiscoveryOutput_empty: "parseDiscoveryOutput [] = []"
  by (simp add: parseDiscoveryOutput_def parseLines_def scanLines_def flush_def)

text \<open>
  C3 fails on the code. The tool exits with status 0 before the deadline and prints
  nothing: the handler sends two discovery results, the first with an error text made
  from the nil error, the second with the parsed devices and no error.
\<close>

theorem discover_sends_error_result_on_success:
  "discoveryResults (traceOf (handleClientMessage quietWorld discoverRequest)) =
     [\<lparr> DiscoveryResultPayload.Devices = [],
        DiscoveryResultPayload.Error =
          ''Error running chip-tool 'discover commissionables': <nil>. Stdout: , Stderr: '' \<rparr>,
      \<lparr> DiscoveryResultPayload.Devices = [], DiscoveryResultPayload.Error = [] \<rparr>]"
  by (simp add: handleClientMessage_def handleDiscoverDevices_def discoverRequest_def
        quietWorld_def quietRun_def traceOf_def discoveryErrMsg_def showErr_def
        parseDiscoveryOutput_empty Let_def)

lemma discover_always_two_results:
  "length (discoveryResults (handleDiscoverDevices w)) = 2"
  by (simp add: handleDiscoverDevices_def Let_def)


lemma commandResponses_append:
  "commandResponses (xs @ ys) = commandResponses xs @ commandResponses ys"
  by (induction xs rule: commandResponses.induct) simp_all


lemma started_append: "started (xs @ ys) = started xs @ started ys"
  by (induction xs rule: started.induct) simp_all

subsection \<open>C4: a commissioning request without a setup code\<close>

text \<open>
  C4, as the code has it. The validation looks at the setup code alone. A
  \<open>commission_device\<close> request whose payload decodes and whose setup code is empty sends
  one commissioning status, with \<open>success\<close> false and the request's discriminator, runs no
  subprocess and starts no goroutine.
\<close>

theorem commission_without_setup_code:
  assumes "unmarshalCommission w p = Inr payload"
    and "CommissionDevicePayload.SetupCode payload = []"
  shows "handleClientMessage w \<lparr> ClientMessage.Type = ''commission_device'',
                                  ClientMessage.Payload = p \<rparr>
           = Returns (handleCommissionDevice w p)
         \<and> runs (handleCommissionDevice w p) = []
         \<and> started (handleCommissionDevice w p) = []
         \<and> commissioningStatuses (handleCommissionDevice w p) =
             [emptyStatus
                \<lparr> CommissioningStatusPayload.Success := False,
                  CommissioningStatusPayload.Error := ''Missing setupCode or nodeIdToAssign.'',
                  CommissioningStatusPayload.OriginalDiscriminator :=
                    CommissionDevicePayload.LongDiscriminator payload \<rparr>]"
  using assms by (simp add: handleClientMessage_def handleCommissionDevice_def)

theorem commission_without_setup_code_witness:
  "unmarshalCommission noSetupCodeWorld (ClientMessage.Payload commissionRequest) = Inr noSetupCode
   \<and> CommissionDevicePayload.SetupCode noSetupCode = []
   \<and> runs (traceOf (handleClientMessage noSetupCodeWorld commissionRequest)) = []
   \<and> map CommissioningStatusPayload.Success
         (commissioningStatuses (traceOf (handleClientMessage noSetupCodeWorld commissionRequest)))
       = [False]"
proof -
  have d: "unmarshalCommission noSetupCodeWorld (ClientMessage.Payload commissionRequest)
             = Inr noSetupCode"
    by (simp add: noSetupCodeWorld_def)
  have e: "CommissionDevicePayload.SetupCode noSetupCode = []"
    by (simp add: noSetupCode_def emptyCommission_def)
  have m: "commissionRequest =
             \<lparr> ClientMessage.Type = ''commission_device'',
               ClientMessage.Payload = ClientMessage.Payload commissionRequest \<rparr>"
    by (simp add: commissionRequest_def)
  from commission_without_setup_code [OF d e] m
  have "handleClientMessage noSetupCodeWorld commissionRequest
          = Returns (handleCommissionDevice noSetupCodeWorld (ClientMessage.Payload commissionRequest))"
    and "runs (handleCommissionDevice noSetupCodeWorld (ClientMessage.Payload commissionRequest)) = []"
    and "map CommissioningStatusPayload.Success
           (commissioningStatuses
              (handleCommissionDevice noSetupCodeWorld (ClientMessage.Payload commissionRequest)))
         = [False]"
    by simp_all
  with d e show ?thesis by (simp add: traceOf_def)
qed

lemma pad4_42: "pad4 42 = ''0042''"
  by (simp add: pad4_def showNat_digit showNat_more numeral_2_eq_2)

text \<open>
  The claim as written fails on a request with a setup code and an empty discriminator:
  the pairing subprocess and the read after it are run, with the empty discriminator as
  an argument.
\<close>

theorem commission_runs_without_discriminator:
  "CommissionDevicePayload.LongDiscriminator noDiscriminator = []
   \<and> runs (traceOf (handleClientMessage noDiscriminatorWorld commissionRequest)) =
       [[''pairing'', ''onnetwork-long'', ''0042'', ''20202021'', []],
        [''descriptor'', ''read'', ''parts-list'', ''0042'', ''0'']]"
  by (simp add: handleClientMessage_def handleCommissionDevice_def commission_def
        pairAndRead_def executingLog_def
        commissionRequest_def noDiscriminatorWorld_def noDiscriminator_def quietWorld_def
        quietRun_def emptyCommission_def traceOf_def Let_def randIntn_def pad4_42
        findPartsList_def matchPartsAt_def litThen_def)

subsection \<open>C7: the classification of a command's result\<close>

lemma commandArgs_warnings:
  "commandArgs w payload = Some (warnings, args) \<Longrightarrow> commandResponses warnings = []"
proof -
  have "commandResponses (map (genericWarning w payload) kvs) = []" for kvs
    by (induction kvs) (simp_all add: genericWarning_def)
  moreover assume "commandArgs w payload = Some (warnings, args)"
  ultimately show ?thesis
    by (auto simp: commandArgs_def Let_def split: if_splits option.splits)
qed

lemma commandResponses_refreshReads: "commandResponses (refreshReads payload ep) = []"
  by (simp add: refreshReads_def)

lemma runCommand_responses:
  "map CommandResponsePayload.Success (commandResponses (runCommand w payload args)) =
     [runErr (runTool w (args @ [DeviceCommandPayload.NodeID payload, ''1''])) = None
      \<and> \<not> errorMarked (runTool w (args @ [DeviceCommandPayload.NodeID payload, ''1'']))]"
  by (simp add: runCommand_def Let_def emptyResponse_def commandResponses_refreshReads
           executingLog_def split: option.splits)

text \<open>
  C7. A \<open>device_command\<close> request passes validation when its payload decodes, its node
  id, cluster and command are not empty, and the arguments can be built (for
  \<open>MoveToLevel\<close>, a numeric \<open>level\<close> is present). The handler then sends exactly one
  command response, and its \<open>success\<close> is true exactly when the run of the tool returned
  no error and the captured output holds none of the markers: \<open>CHIP Error\<close> in stdout or
  stderr, \<open>Error:\<close> in stderr. The run returns an error when the tool exits with a status
  other than 0 or cannot be run.
\<close>

theorem device_command_success:
  assumes "unmarshalCommand w p = Inr payload"
    and "commandValid payload"
    and "commandArgs w payload = Some (warnings, args)"
    and "r = runTool w (args @ [DeviceCommandPayload.NodeID payload, ''1''])"
  shows "handleClientMessage w \<lparr> ClientMessage.Type = ''device_command'',
                                  ClientMessage.Payload = p \<rparr>
           = Returns (handleDeviceCommand w p)
         \<and> map CommandResponsePayload.Success (commandResponses (handleDeviceCommand w p)) =
             [runErr r = None
              \<and> \<not> (strContains (runStdout r) ''CHIP Error''
                     \<or> strContains (runStderr r) ''CHIP Error''
                     \<or> strContains (runStderr r) ''Error:'')]"
proof -
  have "handleDeviceCommand w p = warnings @ runCommand w payload args"
    using assms(1-3) by (simp add: handleDeviceCommand_def)
  then have "map CommandResponsePayload.Success (commandResponses (handleDeviceCommand w p)) =
               [runErr r = None \<and> \<not> errorMarked r]"
    using commandArgs_warnings [OF assms(3)] assms(4)
    by (simp add: commandResponses_append runCommand_responses)
  then show ?thesis
    by (simp add: handleClientMessage_def errorMarked_def)
qed

theorem device_command_success_witness:
  "commandValid onCommand
   \<and> commandArgs onCommandWorld onCommand = Some ([], [''onoff'', ''on''])
   \<and> map CommandResponsePayload.Success
         (commandResponses (traceOf (handleClientMessage onCommandWorld commandRequest))) = [True]
   \<and> map CommandResponsePayload.Success
         (commandResponses (traceOf (handleClientMessage markedWorld commandRequest))) = [False]"
proof -
  have v: "commandValid onCommand" by (simp add: commandValid_def onCommand_def)
  have d1: "unmarshalCommand onCommandWorld (ClientMessage.Payload commandRequest) = Inr onCommand"
    by (simp add: onCommandWorld_def)
  have d2: "unmarshalCommand markedWorld (ClientMessage.Payload commandRequest) = Inr onCommand"
    by (simp add: markedWorld_def onCommandWorld_def)
  have a1: "commandArgs onCommandWorld onCommand = Some ([], [''onoff'', ''on''])"
    by (simp add: commandArgs_def onCommand_def onCommandWorld_def quietWorld_def asciiLower_def)
  have a2: "commandArgs markedWorld onCommand = Some ([], [''onoff'', ''on''])"
    by (simp add: commandArgs_def onCommand_def markedWorld_def onCommandWorld_def
          quietWorld_def asciiLower_def)
  have r1: "quietRun = runTool onCommandWorld
                         ([''onoff'', ''on''] @ [DeviceCommandPayload.NodeID onCommand, ''1''])"
    by (simp add: onCommandWorld_def quietWorld_def)
  have r2: "markedRun = runTool markedWorld
                          ([''onoff'', ''on''] @ [DeviceCommandPayload.NodeID onCommand, ''1''])"
    by (simp add: markedWorld_def)
  have m: "commandRequest =
             \<lparr> ClientMessage.Type = ''device_command'',
               ClientMessage.Payload = ClientMessage.Payload commandRequest \<rparr>"
    by (simp add: commandRequest_def)
  from device_command_success [OF d1 v a1 r1] m
  have ok: "map CommandResponsePayload.Success
              (commandResponses (traceOf (handleClientMessage onCommandWorld commandRequest)))
            = [True]"
    by (simp add: traceOf_def quietRun_def strContains_def)
  from device_command_success [OF d2 v a2 r2] m
  have bad: "map CommandResponsePayload.Success
               (commandResponses (traceOf (handleClientMessage markedWorld commandRequest)))
             = [False]"
    by (simp add: traceOf_def markedRun_def strContains_def)
  from v a1 ok bad show ?thesis by simp
qed

subsection \<open>C10: the node id of a commissioning\<close>















end
